theory Spec2Isabelle
  imports Main "HOL-Library.AList"
begin

section \<open>BigQuery rules engine: data model\<close>

text \<open>
  A shallow embedding of \<^verbatim>\<open>google/cloud/forseti/scanner/audit/bigquery_rules_engine.py\<close>.
  Strings are \<open>char list\<close>; exceptions are values of the type \<open>error\<close>; the objects the
  methods mutate (the rule book, the engine) are passed in and returned.
\<close>

datatype Mode = WHITELIST | BLACKLIST

datatype error =
    InvalidRulesSchemaError nat  \<comment> \<open>'Missing resource ids in rule {}'.format(rule_index)\<close>
  | ValueError string            \<comment> \<open>\<open>Mode(def_mode)\<close> on a value that is no member of the enum\<close>
  | TypeError                    \<comment> \<open>iterating \<open>None\<close>\<close>
  | AttributeError               \<comment> \<open>a method call on \<open>None\<close>\<close>

text \<open>\<open>resource_mod.ResourceType.BIGQUERY\<close>, a constant declared outside the source file.\<close>

datatype ResourceType = BIGQUERY

subsection \<open>Pattern compiler\<close>

text \<open>
  Modelled from the spec: the module \<open>regular_exp\<close> (the compiler
  \<open>escape_and_globify\<close>, the matching of a compiled pattern, \<open>all_match\<close>) is not part of
  the source file. A compiled pattern is a sequence of items, one per character of the
  wildcard string: \<open>AnyChars\<close> for \<open>*\<close>, \<open>Literal c\<close> for any other character \<open>c\<close>.
\<close>

datatype glob_tok = AnyChars | Literal char

type_synonym matcher = "glob_tok list"

text \<open>
  Modelled from the spec: \<open>regular_exp.escape_and_globify\<close> is not part of the source file.
  Section 4.1: \<open>*\<close> anywhere in the input matches zero or more arbitrary characters, every
  other character is matched literally. The compiled pattern is the sequence of these
  two kinds of items.
\<close>

definition escape_and_globify :: "string \<Rightarrow> matcher" where
  "escape_and_globify pattern_string =
     map (\<lambda>c. if c = CHR ''*'' then AnyChars else Literal c) pattern_string"

text \<open>
  Modelled from the spec: the matching of a compiled pattern against a value, which
  \<open>regular_exp\<close> does outside the source file. Section 4.1: matching is always full-string
  (implicit anchors at both ends), an \<open>AnyChars\<close> item takes zero or more characters, a
  literal item takes the one character it names.
\<close>

fun re_match :: "matcher \<Rightarrow> string \<Rightarrow> bool" where
  "re_match [] s = (s = [])"
| "re_match (Literal c # p) [] = False"
| "re_match (Literal c # p) (x # s) = (c = x \<and> re_match p s)"
| "re_match (AnyChars # p) [] = re_match p []"
| "re_match (AnyChars # p) (x # s) = (re_match p (x # s) \<or> re_match (AnyChars # p) s)"

text \<open>
  A dictionary display \<open>{k1: v1, k2: v2, ...}\<close>: the pairs are stored from left to right,
  and a key that is already present keeps its place and takes the new value.
\<close>

definition dict_literal :: "('k \<times> 'v) list \<Rightarrow> ('k \<times> 'v) list" where
  "dict_literal ps = foldl (\<lambda>d (k, v). AList.update k v d) [] ps"

text \<open>
  Modelled from the spec: \<open>regular_exp.all_match\<close> is not part of the source file.
  Section 4.1: it takes a mapping from compiled pattern to value and is true iff every
  pair matches; an empty mapping is vacuously true.
\<close>

definition all_match :: "(matcher \<times> string) list \<Rightarrow> bool" where
  "all_match rule_regex_to_val = list_all (\<lambda>(regex, val). re_match regex val) rule_regex_to_val"

subsection \<open>Rule definitions, access-control entries, rules, violations\<close>

text \<open>
  One element of a rule definition's \<open>'resource'\<close> list. A field is \<open>None\<close> when the key
  is missing (\<open>dict.get\<close> returns \<open>None\<close>).
\<close>

record raw_resource =
  rr_type :: "string option"
  rr_resource_ids :: "string list option"

text \<open>
  A rule definition, a dictionary read through \<open>rule_def.get(key)\<close>; \<open>None\<close> stands for
  a missing key (or a null value of \<open>'mode'\<close>, \<open>'name'\<close> and \<open>'resource'\<close>).
\<close>

record rule_def =
  rd_name :: "string option"
  rd_mode :: "string option"
  rd_resource :: "raw_resource list option"
  rd_dataset_id :: "string option"
  rd_special_group :: "string option"
  rd_user_email :: "string option"
  rd_domain :: "string option"
  rd_group_email :: "string option"
  rd_role :: "string option"

text \<open>
  \<open>bq_acls.BigqueryAccessControls\<close>, whose class is declared outside the source file: the
  ten constructor arguments of \<open>_build_rule\<close>, the last one read back as \<open>.json\<close>. The
  class holds an access-control entry (the six matched fields are strings, \<open>json\<close> the raw
  serialised form) and also a rule's patterns (the six fields are compiled patterns).
  For a rule the field \<open>json\<close> keeps the raw resource that \<open>json.dumps\<close> serialises.
\<close>

record ('p, 'j) BigqueryAccessControls =
  project_id :: string
  dataset_id :: 'p
  full_name :: string
  special_group :: 'p
  user_email :: 'p
  domain :: 'p
  group_email :: 'p
  role :: 'p
  view :: "(string \<times> string) list"
  json :: 'j

type_synonym acl_entry = "(string, string) BigqueryAccessControls"

record RuleReference =
  bigquery_acl :: "(matcher, raw_resource) BigqueryAccessControls"
  mode :: Mode

record Rule =
  rule_name :: "string option"
  rule_index :: nat
  rules :: RuleReference

record RuleViolation =
  v_resource_type :: ResourceType
  v_resource_id :: string
  v_full_name :: string
  v_rule_name :: "string option"
  v_rule_index :: nat
  v_violation_type :: string
  v_dataset_id :: string
  v_role :: string
  v_special_group :: string
  v_user_email :: string
  v_domain :: string
  v_group_email :: string
  v_view :: "(string \<times> string) list"
  v_resource_data :: string

section \<open>Rule\<close>

definition is_applicable :: "Rule \<Rightarrow> acl_entry \<Rightarrow> bool" where
  "is_applicable self acl =
     (let rule_bigquery_acl = bigquery_acl (rules self);
          rule_regex_to_val = dict_literal
            [(dataset_id rule_bigquery_acl, dataset_id acl),
             (role rule_bigquery_acl, role acl)]
      in all_match rule_regex_to_val)"

text \<open>The three local values of \<open>Rule.find_policy_violations\<close>, in the order it computes them.\<close>

definition rule_regex_to_val :: "Rule \<Rightarrow> acl_entry \<Rightarrow> (matcher \<times> string) list" where
  "rule_regex_to_val self acl =
     (let rule_bigquery_acl = bigquery_acl (rules self)
      in dict_literal
           [(special_group rule_bigquery_acl, special_group acl),
            (user_email rule_bigquery_acl, user_email acl),
            (domain rule_bigquery_acl, domain acl),
            (group_email rule_bigquery_acl, group_email acl)])"

definition all_matched :: "Rule \<Rightarrow> acl_entry \<Rightarrow> bool" where
  "all_matched self acl = all_match (rule_regex_to_val self acl)"

definition has_violation :: "Rule \<Rightarrow> acl_entry \<Rightarrow> bool" where
  "has_violation self acl =
     (mode (rules self) = BLACKLIST \<and> all_matched self acl
      \<or> (mode (rules self) = WHITELIST \<and> \<not> all_matched self acl))"

text \<open>The generator, as the list of the records it yields.\<close>

definition Rule_find_policy_violations :: "Rule \<Rightarrow> acl_entry \<Rightarrow> RuleViolation list" where
  "Rule_find_policy_violations self acl =
     (if \<not> is_applicable self acl then []
      else if has_violation self acl then
        [\<lparr>v_resource_type = BIGQUERY,
          v_resource_id = dataset_id acl,
          v_full_name = full_name acl,
          v_rule_name = rule_name self,
          v_rule_index = rule_index self,
          v_violation_type = ''BIGQUERY_VIOLATION'',
          v_dataset_id = dataset_id acl,
          v_role = role acl,
          v_special_group = special_group acl,
          v_user_email = user_email acl,
          v_domain = domain acl,
          v_group_email = group_email acl,
          v_view = view acl,
          v_resource_data = json acl\<rparr>]
      else [])"

section \<open>BigqueryRuleBook\<close>

text \<open>\<open>Mode(def_mode)\<close>: the member of the enum with this value, \<open>ValueError\<close> when there is none.\<close>

definition Mode_of_value :: "string \<Rightarrow> error + Mode" where
  "Mode_of_value def_mode =
     (if def_mode = ''whitelist'' then Inr WHITELIST
      else if def_mode = ''blacklist'' then Inr BLACKLIST
      else Inl (ValueError def_mode))"

text \<open>\<open>rule_def.get(key, default)\<close>.\<close>

definition get_default :: "'a option \<Rightarrow> 'a \<Rightarrow> 'a" where
  "get_default v dflt = (case v of None \<Rightarrow> dflt | Some x \<Rightarrow> x)"

text \<open>The truth value of \<open>rule_def.get('mode')\<close>: \<open>None\<close> and the empty string are false.\<close>

definition truthy :: "string option \<Rightarrow> bool" where
  "truthy v = (case v of None \<Rightarrow> False | Some s \<Rightarrow> s \<noteq> [])"

text \<open>
  \<open>_build_rule\<close>. Python's \<open>str.upper()\<close>, which the role goes through, is the parameter
  \<open>str_upper\<close> of this function and of the functions that call it.
\<close>

definition build_rule :: "(string \<Rightarrow> string) \<Rightarrow> rule_def \<Rightarrow> nat \<Rightarrow> raw_resource \<Rightarrow> error + Rule" where
  "build_rule str_upper rule_def rule_index' raw_resource =
     (case (if truthy (rd_mode rule_def) then Mode_of_value (get_default (rd_mode rule_def) [])
            else Inr BLACKLIST) of
        Inl e \<Rightarrow> Inl e
      | Inr m \<Rightarrow>
          Inr \<lparr>rule_name = rd_name rule_def,
               rule_index = rule_index',
               rules = \<lparr>bigquery_acl =
                   \<lparr>project_id = [],
                    dataset_id = escape_and_globify (get_default (rd_dataset_id rule_def) ''*''),
                    full_name = [],
                    special_group = escape_and_globify (get_default (rd_special_group rule_def) ''*''),
                    user_email = escape_and_globify (get_default (rd_user_email rule_def) ''*''),
                    domain = escape_and_globify (get_default (rd_domain rule_def) ''*''),
                    group_email = escape_and_globify (get_default (rd_group_email rule_def) ''*''),
                    role = escape_and_globify (str_upper (get_default (rd_role rule_def) ''*'')),
                    view = [],
                    json = raw_resource\<rparr>,
                 mode = m\<rparr>\<rparr>)"

text \<open>
  The index \<open>resource_rules_map\<close> is a \<open>collections.defaultdict(list)\<close>, kept as an
  association list in insertion order. It has two kinds of read: \<open>d[k]\<close> inserts an empty
  list under a missing key, \<open>d.get(k, default)\<close> does not insert.
\<close>

definition dd_getitem :: "'k \<Rightarrow> ('k \<times> 'v list) list \<Rightarrow> 'v list \<times> ('k \<times> 'v list) list" where
  "dd_getitem k d = (case map_of d k of None \<Rightarrow> ([], d @ [(k, [])]) | Some v \<Rightarrow> (v, d))"

definition dd_get :: "'k \<Rightarrow> 'v \<Rightarrow> ('k \<times> 'v) list \<Rightarrow> 'v \<times> ('k \<times> 'v) list" where
  "dd_get k dflt d = (case map_of d k of None \<Rightarrow> (dflt, d) | Some v \<Rightarrow> (v, d))"

text \<open>\<open>d[k].append(x)\<close>.\<close>

definition dd_append :: "'k \<Rightarrow> 'v \<Rightarrow> ('k \<times> 'v list) list \<Rightarrow> ('k \<times> 'v list) list" where
  "dd_append k x d = (case dd_getitem k d of (vs, d') \<Rightarrow> AList.update k (vs @ [x]) d')"

text \<open>
  A rule-definitions dictionary is kept as its \<open>'rules'\<close> entry (\<open>None\<close> when the key is
  missing), the only key this module reads. The resource identities are values of a
  type \<open>'res\<close> compared by equality; \<open>resource_util.create_resource\<close>, declared outside the
  source file, is the parameter \<open>create_resource\<close> of the functions that call it.
\<close>

record 'res BigqueryRuleBook =
  rule_defs :: "rule_def list option"
  resource_rules_map :: "('res \<times> Rule list) list"

text \<open>The loop over \<open>resource_ids\<close> of \<open>add_rule\<close>.\<close>

fun add_rule_ids ::
  "(string \<Rightarrow> string option \<Rightarrow> 'res) \<Rightarrow> Rule \<Rightarrow> string option \<Rightarrow> string list
     \<Rightarrow> 'res BigqueryRuleBook \<Rightarrow> 'res BigqueryRuleBook" where
  "add_rule_ids create_resource rule resource_type [] self = self"
| "add_rule_ids create_resource rule resource_type (resource_id # rest) self =
     add_rule_ids create_resource rule resource_type rest
       (self\<lparr>resource_rules_map :=
          dd_append (create_resource resource_id resource_type) rule (resource_rules_map self)\<rparr>)"

text \<open>
  The loop over \<open>resources\<close> of \<open>add_rule\<close>. An exception ends the loop; the book keeps
  what the earlier iterations wrote into it.
\<close>

fun add_rule_resources ::
  "(string \<Rightarrow> string) \<Rightarrow> (string \<Rightarrow> string option \<Rightarrow> 'res) \<Rightarrow> rule_def \<Rightarrow> nat \<Rightarrow> raw_resource list
     \<Rightarrow> 'res BigqueryRuleBook \<Rightarrow> error option \<times> 'res BigqueryRuleBook" where
  "add_rule_resources str_upper create_resource rule_def rule_index' [] self = (None, self)"
| "add_rule_resources str_upper create_resource rule_def rule_index' (raw_resource # rest) self =
     (case rr_resource_ids raw_resource of
        None \<Rightarrow> (Some (InvalidRulesSchemaError rule_index'), self)
      | Some resource_ids \<Rightarrow>
          if resource_ids = [] \<or> length resource_ids < 1
          then (Some (InvalidRulesSchemaError rule_index'), self)
          else (case build_rule str_upper rule_def rule_index' raw_resource of
                  Inl e \<Rightarrow> (Some e, self)
                | Inr rule \<Rightarrow>
                    add_rule_resources str_upper create_resource rule_def rule_index' rest
                      (add_rule_ids create_resource rule (rr_type raw_resource) resource_ids self)))"

definition add_rule ::
  "(string \<Rightarrow> string) \<Rightarrow> (string \<Rightarrow> string option \<Rightarrow> 'res) \<Rightarrow> rule_def \<Rightarrow> nat
     \<Rightarrow> 'res BigqueryRuleBook \<Rightarrow> error option \<times> 'res BigqueryRuleBook" where
  "add_rule str_upper create_resource rule_def rule_index' self =
     (case rd_resource rule_def of
        None \<Rightarrow> (Some TypeError, self)
      | Some resources \<Rightarrow> add_rule_resources str_upper create_resource rule_def rule_index' resources self)"

fun add_rules_loop ::
  "(string \<Rightarrow> string) \<Rightarrow> (string \<Rightarrow> string option \<Rightarrow> 'res) \<Rightarrow> (nat \<times> rule_def) list
     \<Rightarrow> 'res BigqueryRuleBook \<Rightarrow> error option \<times> 'res BigqueryRuleBook" where
  "add_rules_loop str_upper create_resource [] self = (None, self)"
| "add_rules_loop str_upper create_resource ((i, rule) # rest) self =
     (case add_rule str_upper create_resource rule i self of
        (Some e, self') \<Rightarrow> (Some e, self')
      | (None, self') \<Rightarrow> add_rules_loop str_upper create_resource rest self')"

definition add_rules ::
  "(string \<Rightarrow> string) \<Rightarrow> (string \<Rightarrow> string option \<Rightarrow> 'res) \<Rightarrow> rule_def list option
     \<Rightarrow> 'res BigqueryRuleBook \<Rightarrow> error option \<times> 'res BigqueryRuleBook" where
  "add_rules str_upper create_resource rule_defs_arg self =
     add_rules_loop str_upper create_resource (enumerate 0 (get_default rule_defs_arg [])) self"

text \<open>
  \<open>BigqueryRuleBook.__init__\<close>. The argument is \<open>None\<close> or a dictionary; \<open>not rule_defs\<close>
  holds for \<open>None\<close> and for the empty dictionary.
\<close>

definition BigqueryRuleBook_init ::
  "(string \<Rightarrow> string) \<Rightarrow> (string \<Rightarrow> string option \<Rightarrow> 'res) \<Rightarrow> rule_def list option option
     \<Rightarrow> error option \<times> 'res BigqueryRuleBook" where
  "BigqueryRuleBook_init str_upper create_resource rule_defs_arg =
     (case rule_defs_arg of
        None \<Rightarrow> (None, \<lparr>rule_defs = None, resource_rules_map = []\<rparr>)
      | Some None \<Rightarrow> (None, \<lparr>rule_defs = None, resource_rules_map = []\<rparr>)
      | Some (Some rs) \<Rightarrow>
          add_rules str_upper create_resource (Some rs) \<lparr>rule_defs = Some rs, resource_rules_map = []\<rparr>)"

text \<open>
  \<open>BigqueryRuleBook.find_policy_violations\<close>. The hierarchy resolver
  \<open>relationship.find_ancestors(resource, resource.full_name)\<close>, declared outside the source
  file, is the parameter \<open>find_ancestors\<close>. \<open>itertools.chain(violations, g)\<close> is the
  sequence \<open>violations\<close> followed by the sequence \<open>g\<close>. The book is returned with the
  result, as every read of the index is a call on the index.
\<close>

fun rules_loop :: "Rule list \<Rightarrow> acl_entry \<Rightarrow> RuleViolation list \<Rightarrow> RuleViolation list" where
  "rules_loop [] bq_acl violations = violations"
| "rules_loop (rule # rest) bq_acl violations =
     rules_loop rest bq_acl (violations @ Rule_find_policy_violations rule bq_acl)"

fun ancestors_loop ::
  "'res list \<Rightarrow> acl_entry \<Rightarrow> 'res BigqueryRuleBook \<Rightarrow> RuleViolation list
     \<Rightarrow> RuleViolation list \<times> 'res BigqueryRuleBook" where
  "ancestors_loop [] bq_acl self violations = (violations, self)"
| "ancestors_loop (res # rest) bq_acl self violations =
     (case dd_get res [] (resource_rules_map self) of
        (rs, m) \<Rightarrow>
          ancestors_loop rest bq_acl (self\<lparr>resource_rules_map := m\<rparr>)
            (rules_loop rs bq_acl violations))"

definition BigqueryRuleBook_find_policy_violations ::
  "('res \<Rightarrow> 'res list) \<Rightarrow> 'res BigqueryRuleBook \<Rightarrow> 'res \<Rightarrow> acl_entry
     \<Rightarrow> RuleViolation list \<times> 'res BigqueryRuleBook" where
  "BigqueryRuleBook_find_policy_violations find_ancestors self resource bq_acl =
     ancestors_loop (find_ancestors resource) bq_acl self []"

section \<open>BigqueryRulesEngine\<close>

text \<open>
  The engine owns the rule book; \<open>rule_book = None\<close> is the engine before its first
  build. \<open>self._load_rule_definitions()\<close> belongs to the base class, outside the source
  file: the dictionary it returns at a call is the parameter \<open>loaded\<close>.
\<close>

record 'res BigqueryRulesEngine =
  rules_file_path :: string
  rule_book :: "'res BigqueryRuleBook option"

definition BigqueryRulesEngine_init :: "string \<Rightarrow> 'res BigqueryRulesEngine" where
  "BigqueryRulesEngine_init path = \<lparr>rules_file_path = path, rule_book = None\<rparr>"

definition build_rule_book ::
  "(string \<Rightarrow> string) \<Rightarrow> (string \<Rightarrow> string option \<Rightarrow> 'res) \<Rightarrow> rule_def list option option
     \<Rightarrow> 'res BigqueryRulesEngine \<Rightarrow> error option \<times> 'res BigqueryRulesEngine" where
  "build_rule_book str_upper create_resource loaded self =
     (case BigqueryRuleBook_init str_upper create_resource loaded of
        (Some e, book) \<Rightarrow> (Some e, self)
      | (None, book) \<Rightarrow> (None, self\<lparr>rule_book := Some book\<rparr>))"

definition BigqueryRulesEngine_find_policy_violations ::
  "(string \<Rightarrow> string) \<Rightarrow> (string \<Rightarrow> string option \<Rightarrow> 'res) \<Rightarrow> ('res \<Rightarrow> 'res list) \<Rightarrow> rule_def list option option
     \<Rightarrow> 'res BigqueryRulesEngine \<Rightarrow> 'res \<Rightarrow> acl_entry \<Rightarrow> bool
     \<Rightarrow> (error + RuleViolation list) \<times> 'res BigqueryRulesEngine" where
  "BigqueryRulesEngine_find_policy_violations str_upper create_resource find_ancestors loaded self
       parent_project bq_acl force_rebuild =
     (case (if rule_book self = None \<or> force_rebuild
            then build_rule_book str_upper create_resource loaded self
            else (None, self)) of
        (Some e, self') \<Rightarrow> (Inl e, self')
      | (None, self') \<Rightarrow>
          (case rule_book self' of
             None \<Rightarrow> (Inl AttributeError, self')
           | Some book \<Rightarrow>
               (case BigqueryRuleBook_find_policy_violations find_ancestors book
                       parent_project bq_acl of
                  (violations, book') \<Rightarrow> (Inr violations, self'\<lparr>rule_book := Some book'\<rparr>))))"

definition BigqueryRulesEngine_add_rules ::
  "(string \<Rightarrow> string) \<Rightarrow> (string \<Rightarrow> string option \<Rightarrow> 'res) \<Rightarrow> 'res BigqueryRulesEngine \<Rightarrow> rule_def list option
     \<Rightarrow> error option \<times> 'res BigqueryRulesEngine" where
  "BigqueryRulesEngine_add_rules str_upper create_resource self rules_arg =
     (case rule_book self of
        None \<Rightarrow> (None, self)
      | Some book \<Rightarrow>
          (case add_rules str_upper create_resource rules_arg book of
             (r, book') \<Rightarrow> (r, self\<lparr>rule_book := Some book'\<rparr>)))"

section \<open>Notions used to state the properties\<close>

text \<open>
  The piece of a value that one item of a compiled pattern accounts for: any string for
  \<open>AnyChars\<close>, the one-character string \<open>[c]\<close> for \<open>Literal c\<close>.
\<close>

definition seg_of :: "glob_tok \<Rightarrow> string \<Rightarrow> bool" where
  "seg_of t seg = (case t of AnyChars \<Rightarrow> True | Literal c \<Rightarrow> seg = [c])"

text \<open>
  What one ancestor contributes to a query: the violations of the rules registered under
  it, in the order of its rule list; nothing when no rule is registered under it.
\<close>

definition ancestor_violations :: "'res BigqueryRuleBook \<Rightarrow> acl_entry \<Rightarrow> 'res \<Rightarrow> RuleViolation list" where
  "ancestor_violations self bq_acl res =
     concat (map (\<lambda>rule. Rule_find_policy_violations rule bq_acl)
       (case map_of (resource_rules_map self) res of None \<Rightarrow> [] | Some rs \<Rightarrow> rs))"

text \<open>
  The rule list registered under an identity in an index, empty when the identity has
  no entry.
\<close>

definition rules_of :: "('k \<times> 'v list) list \<Rightarrow> 'k \<Rightarrow> 'v list" where
  "rules_of d k = (case map_of d k of None \<Rightarrow> [] | Some vs \<Rightarrow> vs)"

text \<open>
  What one resource-scope entry of a rule definition adds to the rule list of the
  identity \<open>k\<close>: the rule built for the entry, once for each of the entry's identifiers
  that \<open>create_resource\<close> maps to \<open>k\<close>, in the order of the identifier list.
\<close>

definition scope_rules ::
  "(string \<Rightarrow> string) \<Rightarrow> (string \<Rightarrow> string option \<Rightarrow> 'res) \<Rightarrow> rule_def \<Rightarrow> nat \<Rightarrow> 'res
     \<Rightarrow> raw_resource \<Rightarrow> Rule list" where
  "scope_rules str_upper create_resource rule_def i k rr =
     (case build_rule str_upper rule_def i rr of
        Inl e \<Rightarrow> []
      | Inr rule \<Rightarrow>
          map (\<lambda>resource_id. rule)
            (filter (\<lambda>resource_id. create_resource resource_id (rr_type rr) = k)
               (get_default (rr_resource_ids rr) [])))"

section \<open>Example inputs\<close>

text \<open>
  A hierarchy with the project \<open>proj-1\<close> below the organization \<open>org-1\<close>, resource
  identities as (type, identifier) pairs, a blacklist rule on external owners registered
  on the project, a rule without a mode registered on the organization, and an
  access-control entry that grants \<open>OWNER\<close> on the dataset \<open>ds1\<close> to the domain
  \<open>external.com\<close>.
\<close>

type_synonym ex_res = "string option \<times> string"

text \<open>
  The upper-casing of the ASCII letters \<open>a\<close> to \<open>z\<close>, every other character unchanged:
  what \<open>str.upper()\<close> returns on a string of ASCII characters. It stands for the parameter
  \<open>str_upper\<close> on the example inputs, which are strings of ASCII characters.
\<close>

definition ascii_upper_char :: "char \<Rightarrow> char" where
  "ascii_upper_char c =
     (let n = (of_char c :: nat) in if 97 \<le> n \<and> n \<le> 122 then char_of (n - 32) else c)"

definition ascii_upper :: "string \<Rightarrow> string" where
  "ascii_upper s = map ascii_upper_char s"

definition ex_create_resource :: "string \<Rightarrow> string option \<Rightarrow> ex_res" where
  "ex_create_resource resource_id resource_type = (resource_type, resource_id)"

definition ex_find_ancestors :: "ex_res \<Rightarrow> ex_res list" where
  "ex_find_ancestors res =
     (if res = (Some ''project'', ''proj-1'')
      then [(Some ''project'', ''proj-1''), (Some ''organization'', ''org-1'')]
      else [res])"

definition ex_scope :: raw_resource where
  "ex_scope = \<lparr>rr_type = Some ''project'', rr_resource_ids = Some [''proj-1'']\<rparr>"

definition ex_org_scope :: raw_resource where
  "ex_org_scope = \<lparr>rr_type = Some ''organization'', rr_resource_ids = Some [''org-1'']\<rparr>"

definition ex_empty_scope :: raw_resource where
  "ex_empty_scope = \<lparr>rr_type = Some ''project'', rr_resource_ids = Some []\<rparr>"

definition ex_rule_def :: rule_def where
  "ex_rule_def =
     \<lparr>rd_name = Some ''no external owners'', rd_mode = Some ''blacklist'',
      rd_resource = Some [ex_scope], rd_dataset_id = Some ''*'', rd_special_group = None,
      rd_user_email = None, rd_domain = Some ''external.com'', rd_group_email = None,
      rd_role = Some ''owner''\<rparr>"

definition ex_org_rule_def :: rule_def where
  "ex_org_rule_def =
     \<lparr>rd_name = Some ''org rule'', rd_mode = None,
      rd_resource = Some [ex_org_scope], rd_dataset_id = None, rd_special_group = None,
      rd_user_email = None, rd_domain = None, rd_group_email = None,
      rd_role = None\<rparr>"

definition ex_two_scope_def :: rule_def where
  "ex_two_scope_def = ex_rule_def\<lparr>rd_resource := Some [ex_scope, ex_empty_scope]\<rparr>"

definition ex_reader_rule_def :: rule_def where
  "ex_reader_rule_def =
     \<lparr>rd_name = Some ''readers of READER'', rd_mode = None,
      rd_resource = Some [ex_scope], rd_dataset_id = Some ''READER'', rd_special_group = None,
      rd_user_email = None, rd_domain = None, rd_group_email = None,
      rd_role = Some ''READER''\<rparr>"

definition ex_rule :: Rule where
  "ex_rule =
     \<lparr>rule_name = Some ''no external owners'', rule_index = 0,
      rules = \<lparr>bigquery_acl =
          \<lparr>project_id = [], dataset_id = escape_and_globify ''*'', full_name = [],
           special_group = escape_and_globify ''*'', user_email = escape_and_globify ''*'',
           domain = escape_and_globify ''external.com'', group_email = escape_and_globify ''*'',
           role = escape_and_globify ''OWNER'', view = [], json = ex_scope\<rparr>,
        mode = BLACKLIST\<rparr>\<rparr>"

definition ex_org_rule :: Rule where
  "ex_org_rule =
     \<lparr>rule_name = Some ''org rule'', rule_index = 1,
      rules = \<lparr>bigquery_acl =
          \<lparr>project_id = [], dataset_id = escape_and_globify ''*'', full_name = [],
           special_group = escape_and_globify ''*'', user_email = escape_and_globify ''*'',
           domain = escape_and_globify ''*'', group_email = escape_and_globify ''*'',
           role = escape_and_globify ''*'', view = [], json = ex_org_scope\<rparr>,
        mode = BLACKLIST\<rparr>\<rparr>"

definition ex_reader_rule :: Rule where
  "ex_reader_rule =
     \<lparr>rule_name = Some ''readers of READER'', rule_index = 0,
      rules = \<lparr>bigquery_acl =
          \<lparr>project_id = [], dataset_id = escape_and_globify ''READER'', full_name = [],
           special_group = escape_and_globify ''*'', user_email = escape_and_globify ''*'',
           domain = escape_and_globify ''*'', group_email = escape_and_globify ''*'',
           role = escape_and_globify ''READER'', view = [], json = ex_scope\<rparr>,
        mode = BLACKLIST\<rparr>\<rparr>"

definition ex_entry :: acl_entry where
  "ex_entry =
     \<lparr>project_id = ''proj-1'', dataset_id = ''ds1'', full_name = ''project/proj-1/dataset/ds1/'',
      special_group = [], user_email = [], domain = ''external.com'', group_email = [],
      role = ''OWNER'', view = [], json = ''{}''\<rparr>"

definition ex_reader_entry :: acl_entry where
  "ex_reader_entry = ex_entry\<lparr>role := ''READER''\<rparr>"

definition ex_book :: "ex_res BigqueryRuleBook" where
  "ex_book =
     \<lparr>rule_defs = Some [ex_rule_def, ex_org_rule_def],
      resource_rules_map =
        [((Some ''project'', ''proj-1''), [ex_rule]),
         ((Some ''organization'', ''org-1''), [ex_org_rule])]\<rparr>"

definition ex_empty_book :: "ex_res BigqueryRuleBook" where
  "ex_empty_book = \<lparr>rule_defs = None, resource_rules_map = []\<rparr>"

definition ex_engine :: "ex_res BigqueryRulesEngine" where
  "ex_engine = BigqueryRulesEngine_init ''rules/bigquery_rules.yaml''"

definition ex_dup_rule_def :: rule_def where
  "ex_dup_rule_def =
     \<lparr>rd_name = Some ''no example.com'', rd_mode = Some ''blacklist'',
      rd_resource = Some [ex_scope], rd_dataset_id = None, rd_special_group = None,
      rd_user_email = Some ''example.com'', rd_domain = Some ''example.com'',
      rd_group_email = None, rd_role = None\<rparr>"

definition ex_dup_rule :: Rule where
  "ex_dup_rule =
     \<lparr>rule_name = Some ''no example.com'', rule_index = 0,
      rules = \<lparr>bigquery_acl =
          \<lparr>project_id = [], dataset_id = escape_and_globify ''*'', full_name = [],
           special_group = escape_and_globify ''*'',
           user_email = escape_and_globify ''example.com'',
           domain = escape_and_globify ''example.com'', group_email = escape_and_globify ''*'',
           role = escape_and_globify ''*'', view = [], json = ex_scope\<rparr>,
        mode = BLACKLIST\<rparr>\<rparr>"

definition ex_dup_whitelist_rule :: Rule where
  "ex_dup_whitelist_rule = ex_dup_rule\<lparr>rules := (rules ex_dup_rule)\<lparr>mode := WHITELIST\<rparr>\<rparr>"

definition ex_dup_entry :: acl_entry where
  "ex_dup_entry = ex_entry\<lparr>user_email := ''alice@other.org'', domain := ''example.com''\<rparr>"

section \<open>Lemmas\<close>

subsection \<open>The pattern compiler\<close>

lemma re_match_segments:
  "re_match p s \<longleftrightarrow> (\<exists>segs. list_all2 seg_of p segs \<and> concat segs = s)"
proof (induction p s rule: re_match.induct)
  case (1 s)
  then show ?case by auto
next
  case (2 c p)
  then show ?case by (auto simp: list_all2_Cons1 seg_of_def)
next
  case (3 c p x s)
  then show ?case by (auto simp: list_all2_Cons1 seg_of_def)
next
  case (4 p)
  show ?case
  proof
    assume "re_match (AnyChars # p) []"
    with 4 obtain segs where "list_all2 seg_of p segs" "concat segs = []" by auto
    then have "list_all2 seg_of (AnyChars # p) ([] # segs) \<and> concat ([] # segs) = []"
      by (simp add: seg_of_def)
    then show "\<exists>segs. list_all2 seg_of (AnyChars # p) segs \<and> concat segs = []" by blast
  next
    assume "\<exists>segs. list_all2 seg_of (AnyChars # p) segs \<and> concat segs = []"
    then obtain seg rest where "list_all2 seg_of p rest" "seg @ concat rest = []"
      by (auto simp: list_all2_Cons1)
    then have "list_all2 seg_of p rest \<and> concat rest = []" by simp
    with 4 show "re_match (AnyChars # p) []" by auto
  qed
next
  case (5 p x s)
  show ?case
  proof
    assume "re_match (AnyChars # p) (x # s)"
    then consider "re_match p (x # s)" | "re_match (AnyChars # p) s" by auto
    then show "\<exists>segs. list_all2 seg_of (AnyChars # p) segs \<and> concat segs = x # s"
    proof cases
      case 1
      with 5 obtain segs where "list_all2 seg_of p segs" "concat segs = x # s" by auto
      then have "list_all2 seg_of (AnyChars # p) ([] # segs) \<and> concat ([] # segs) = x # s"
        by (simp add: seg_of_def)
      then show ?thesis by blast
    next
      case 2
      with 5 obtain segs where "list_all2 seg_of (AnyChars # p) segs" "concat segs = s" by auto
      then obtain seg rest where "segs = seg # rest" "list_all2 seg_of p rest"
        by (auto simp: list_all2_Cons1)
      with \<open>concat segs = s\<close>
      have "list_all2 seg_of (AnyChars # p) ((x # seg) # rest) \<and> concat ((x # seg) # rest) = x # s"
        by (simp add: seg_of_def)
      then show ?thesis by blast
    qed
  next
    assume "\<exists>segs. list_all2 seg_of (AnyChars # p) segs \<and> concat segs = x # s"
    then obtain seg rest where r: "list_all2 seg_of p rest" "seg @ concat rest = x # s"
      by (auto simp: list_all2_Cons1)
    show "re_match (AnyChars # p) (x # s)"
    proof (cases seg)
      case Nil
      with r 5 show ?thesis by auto
    next
      case (Cons y seg')
      with r have "list_all2 seg_of (AnyChars # p) (seg' # rest) \<and> concat (seg' # rest) = s"
        by (simp add: seg_of_def)
      with 5 show ?thesis by auto
    qed
  qed
qed

lemma re_match_star: "re_match [AnyChars] s"
  by (induction s) auto

lemma re_match_literals: "re_match (map Literal p) s \<longleftrightarrow> s = p"
proof (induction p arbitrary: s)
  case Nil
  then show ?case by simp
next
  case (Cons c p)
  then show ?case by (cases s) auto
qed

lemma escape_no_star: "CHR ''*'' \<notin> set p \<Longrightarrow> escape_and_globify p = map Literal p"
  by (induction p) (auto simp: escape_and_globify_def)

lemma re_match_escape_segments:
  "re_match (escape_and_globify p) s \<longleftrightarrow>
     (\<exists>segs. list_all2 (\<lambda>c seg. c = CHR ''*'' \<or> seg = [c]) p segs \<and> concat segs = s)"
proof -
  have seg: "seg_of (if c = CHR ''*'' then AnyChars else Literal c) seg \<longleftrightarrow>
      (c = CHR ''*'' \<or> seg = [c])" for c seg
    by (simp add: seg_of_def)
  show ?thesis
    unfolding re_match_segments escape_and_globify_def list_all2_map1 seg ..
qed

subsection \<open>The loops of the rule book\<close>

lemma rules_loop_eq:
  "rules_loop rs bq_acl violations =
     violations @ concat (map (\<lambda>rule. Rule_find_policy_violations rule bq_acl) rs)"
  by (induction rs arbitrary: violations) auto

lemma dd_get_frame: "snd (dd_get k dflt d) = d"
  by (simp add: dd_get_def split: option.splits)

lemma dd_get_value: "fst (dd_get k dflt d) = (case map_of d k of None \<Rightarrow> dflt | Some v \<Rightarrow> v)"
  by (simp add: dd_get_def split: option.splits)

lemma ancestors_loop_eq:
  "ancestors_loop ancestors bq_acl self violations =
     (violations @ concat (map (\<lambda>res. concat (map (\<lambda>rule. Rule_find_policy_violations rule bq_acl)
          (fst (dd_get res [] (resource_rules_map self))))) ancestors), self)"
proof (induction ancestors arbitrary: violations)
  case Nil
  then show ?case by simp
next
  case (Cons res rest)
  obtain rs where rs: "dd_get res [] (resource_rules_map self) = (rs, resource_rules_map self)"
    by (cases "dd_get res [] (resource_rules_map self)") (auto simp: dd_get_def split: option.splits)
  show ?case by (simp add: rs Cons rules_loop_eq)
qed

lemma book_find_eq:
  "BigqueryRuleBook_find_policy_violations find_ancestors self resource bq_acl =
     (concat (map (ancestor_violations self bq_acl) (find_ancestors resource)), self)"
  unfolding BigqueryRuleBook_find_policy_violations_def ancestors_loop_eq ancestor_violations_def dd_get_value
  by simp

lemma book_find_frame:
  "snd (BigqueryRuleBook_find_policy_violations find_ancestors self resource bq_acl) = self"
  by (simp add: book_find_eq)

lemma build_rule_resource_irrelevant:
  "build_rule str_upper (rule_def\<lparr>rd_resource := x\<rparr>) i rr = build_rule str_upper rule_def i rr"
  by (simp add: build_rule_def split: sum.splits)

lemma build_rule_ok_any_scope:
  "build_rule str_upper rule_def i rr = Inr r \<Longrightarrow> \<exists>r'. build_rule str_upper rule_def i rr' = Inr r'"
  by (auto simp: build_rule_def split: sum.splits)

lemma add_rule_resources_resource_irrelevant:
  "add_rule_resources str_upper cr (rule_def\<lparr>rd_resource := x\<rparr>) i rs self = add_rule_resources str_upper cr rule_def i rs self"
  by (induction rs arbitrary: self) (auto simp: build_rule_resource_irrelevant split: option.splits sum.splits)

lemma add_rule_resources_raises:
  assumes "bad \<in> set rs" and "rr_resource_ids bad \<in> {None, Some []}"
  shows "\<exists>e. fst (add_rule_resources str_upper cr rule_def i rs self) = Some e"
  using assms
proof (induction rs arbitrary: self)
  case Nil
  then show ?case by simp
next
  case (Cons rr rs)
  show ?case
  proof (cases "rr_resource_ids rr \<in> {None, Some []}")
    case True
    then show ?thesis by auto
  next
    case False
    then obtain ids where ids: "rr_resource_ids rr = Some ids" "ids \<noteq> []" by auto
    with Cons.prems have "bad \<in> set rs" by auto
    from Cons.IH [OF this Cons.prems(2)] ids show ?thesis
      by (cases "build_rule str_upper rule_def i rr") auto
  qed
qed

lemma add_rule_resources_prefix:
  assumes "\<forall>rr \<in> set good. rr_resource_ids rr \<notin> {None, Some []}"
    and "rr_resource_ids bad \<in> {None, Some []}"
  shows "snd (add_rule_resources str_upper cr rule_def i (good @ bad # rest) self) =
         snd (add_rule_resources str_upper cr rule_def i good self)"
  using assms
proof (induction good arbitrary: self)
  case Nil
  then show ?case by auto
next
  case (Cons rr good)
  then obtain ids where ids: "rr_resource_ids rr = Some ids" "ids \<noteq> []" by auto
  from Cons have "\<forall>rr \<in> set good. rr_resource_ids rr \<notin> {None, Some []}" by simp
  from Cons.IH [OF this Cons.prems(2)] ids show ?case
    by (cases "build_rule str_upper rule_def i rr") auto
qed

lemma add_rule_resources_error_kind:
  assumes "\<forall>rr \<in> set good. rr_resource_ids rr \<notin> {None, Some []}"
    and "rr_resource_ids bad \<in> {None, Some []}"
    and "build_rule str_upper rule_def i bad = Inr r"
  shows "fst (add_rule_resources str_upper cr rule_def i (good @ bad # rest) self) = Some (InvalidRulesSchemaError i)"
  using assms(1,2)
proof (induction good arbitrary: self)
  case Nil
  then show ?case by auto
next
  case (Cons rr good)
  then obtain ids where ids: "rr_resource_ids rr = Some ids" "ids \<noteq> []" by auto
  from build_rule_ok_any_scope [OF assms(3)] obtain r' where r': "build_rule str_upper rule_def i rr = Inr r'"
    by blast
  from Cons have "\<forall>rr \<in> set good. rr_resource_ids rr \<notin> {None, Some []}" by simp
  from Cons.IH [OF this Cons.prems(2)] ids r' show ?case by simp
qed

lemma add_rules_loop_raises:
  assumes "(i, rule_def) \<in> set irs" and "rd_resource rule_def = Some rs" and "bad \<in> set rs"
    and "rr_resource_ids bad \<in> {None, Some []}"
  shows "\<exists>e. fst (add_rules_loop str_upper cr irs self) = Some e"
  using assms(1)
proof (induction irs arbitrary: self)
  case Nil
  then show ?case by simp
next
  case (Cons ir irs)
  obtain j rd where ir: "ir = (j, rd)" by (cases ir)
  show ?case
  proof (cases "add_rule str_upper cr rd j self")
    case (Pair res self')
    show ?thesis
    proof (cases res)
      case (Some e)
      with Pair ir show ?thesis by simp
    next
      case None
      have "ir \<noteq> (i, rule_def)"
      proof
        assume "ir = (i, rule_def)"
        with ir have "j = i" "rd = rule_def" by auto
        with add_rule_resources_raises [OF assms(3,4), of str_upper cr rule_def i self] assms(2) Pair None
        show False by (simp add: add_rule_def)
      qed
      with Cons.prems have "(i, rule_def) \<in> set irs" by auto
      from Cons.IH [OF this] Pair None ir show ?thesis by simp
    qed
  qed
qed

lemma dd_append_rules_of:
  "rules_of (dd_append k x d) k' = rules_of d k' @ (if k' = k then [x] else [])"
  by (auto simp: dd_append_def dd_getitem_def rules_of_def update_conv' split: option.splits)

lemma add_rule_ids_rules_of:
  "rules_of (resource_rules_map (add_rule_ids cr rule t ids self)) k =
     rules_of (resource_rules_map self) k
       @ map (\<lambda>resource_id. rule) (filter (\<lambda>resource_id. cr resource_id t = k) ids)"
  by (induction ids arbitrary: self) (auto simp: dd_append_rules_of)

lemma add_rule_ids_rule_defs: "rule_defs (add_rule_ids cr rule t ids self) = rule_defs self"
  by (induction ids arbitrary: self) auto

lemma add_rule_resources_rule_defs:
  "rule_defs (snd (add_rule_resources str_upper cr rule_def i rs self)) = rule_defs self"
  by (induction rs arbitrary: self)
    (auto simp: add_rule_ids_rule_defs split: option.splits sum.splits)

lemma build_rule_fail_any_scope:
  "build_rule str_upper rule_def i rr = Inl e \<Longrightarrow> build_rule str_upper rule_def i rr' = Inl e"
  by (auto simp: build_rule_def split: sum.splits if_splits)

lemma add_rule_resources_good:
  assumes "\<forall>rr \<in> set good. rr_resource_ids rr \<notin> {None, Some []}"
    and "build_rule str_upper rule_def i rr0 = Inr r0"
  shows "fst (add_rule_resources str_upper cr rule_def i good self) = None
       \<and> (\<forall>k. rules_of (resource_rules_map (snd (add_rule_resources str_upper cr rule_def i good self))) k =
            rules_of (resource_rules_map self) k
              @ concat (map (scope_rules str_upper cr rule_def i k) good))"
  using assms(1)
proof (induction good arbitrary: self)
  case Nil
  then show ?case by simp
next
  case (Cons rr good)
  then obtain ids where ids: "rr_resource_ids rr = Some ids" "ids \<noteq> []" by auto
  from build_rule_ok_any_scope [OF assms(2)] obtain r where r: "build_rule str_upper rule_def i rr = Inr r"
    by blast
  from Cons have "\<forall>rr \<in> set good. rr_resource_ids rr \<notin> {None, Some []}" by simp
  from Cons.IH [OF this, of "add_rule_ids cr r (rr_type rr) ids self"] ids r
  show ?case
    by (simp add: add_rule_ids_rules_of scope_rules_def get_default_def)
qed

lemma add_rule_resources_build_fails:
  assumes "rr_resource_ids rr \<notin> {None, Some []}"
    and "build_rule str_upper rule_def i rr0 = Inl e"
  shows "add_rule_resources str_upper cr rule_def i (rr # rs) self = (Some e, self)"
proof -
  from assms(1) obtain ids where ids: "rr_resource_ids rr = Some ids" "ids \<noteq> []" by auto
  from build_rule_fail_any_scope [OF assms(2)] have "build_rule str_upper rule_def i rr = Inl e" .
  with ids show ?thesis by simp
qed

lemma scope_rules_nonempty:
  assumes "rr_resource_ids rr \<notin> {None, Some []}"
    and "build_rule str_upper rule_def i rr0 = Inr r0"
  shows "\<exists>k. scope_rules str_upper cr rule_def i k rr \<noteq> []"
proof -
  from assms(1) obtain resource_id ids where ids: "rr_resource_ids rr = Some (resource_id # ids)"
    by (cases "rr_resource_ids rr") (auto simp: neq_Nil_conv)
  from build_rule_ok_any_scope [OF assms(2)] obtain r where "build_rule str_upper rule_def i rr = Inr r"
    by blast
  with ids have "scope_rules str_upper cr rule_def i (cr resource_id (rr_type rr)) rr \<noteq> []"
    by (simp add: scope_rules_def get_default_def)
  then show ?thesis ..
qed

lemma in_set_enumerate:
  assumes "x \<in> set xs"
  shows "\<exists>i. (i, x) \<in> set (enumerate n xs)"
proof -
  from assms obtain k where "k < length xs" "xs ! k = x"
    by (auto simp: in_set_conv_nth)
  then have "(n + k, x) \<in> set (enumerate n xs)"
    by (simp add: in_set_enumerate_eq)
  then show ?thesis ..
qed

subsection \<open>Applicability\<close>

text \<open>
  The applicability check reads a dictionary keyed by compiled pattern. With two
  different keys it is the conjunction of the two matches; with one key twice, only the
  pair written last is left, the one of the role. The dictionary of the four other
  pairs is built the same way: with four different keys \<open>all_matched\<close> is the
  conjunction of the four matches.
\<close>

lemma is_applicable_distinct_patterns:
  assumes "dataset_id (bigquery_acl (rules r)) \<noteq> role (bigquery_acl (rules r))"
  shows "is_applicable r e \<longleftrightarrow>
           re_match (dataset_id (bigquery_acl (rules r))) (dataset_id e)
           \<and> re_match (role (bigquery_acl (rules r))) (role e)"
  using assms by (simp add: is_applicable_def Let_def dict_literal_def all_match_def)

lemma is_applicable_equal_patterns:
  assumes "dataset_id (bigquery_acl (rules r)) = role (bigquery_acl (rules r))"
  shows "is_applicable r e \<longleftrightarrow> re_match (role (bigquery_acl (rules r))) (role e)"
  using assms by (simp add: is_applicable_def Let_def dict_literal_def all_match_def)

lemma all_matched_distinct_patterns:
  assumes "distinct [special_group (bigquery_acl (rules r)), user_email (bigquery_acl (rules r)),
                     domain (bigquery_acl (rules r)), group_email (bigquery_acl (rules r))]"
  shows "all_matched r e \<longleftrightarrow>
           re_match (special_group (bigquery_acl (rules r))) (special_group e)
           \<and> re_match (user_email (bigquery_acl (rules r))) (user_email e)
           \<and> re_match (domain (bigquery_acl (rules r))) (domain e)
           \<and> re_match (group_email (bigquery_acl (rules r))) (group_email e)"
  using assms
  by (auto simp: all_matched_def rule_regex_to_val_def Let_def dict_literal_def all_match_def)

lemma not_applicable_no_violation:
  "\<not> is_applicable r e \<Longrightarrow> Rule_find_policy_violations r e = []"
  by (simp add: Rule_find_policy_violations_def)

subsection \<open>The example inputs\<close>

lemmas ex_defs = ex_create_resource_def ex_find_ancestors_def ex_scope_def ex_org_scope_def
  ex_empty_scope_def ex_rule_def_def ex_org_rule_def_def ex_two_scope_def_def
  ex_reader_rule_def_def ex_rule_def ex_org_rule_def ex_reader_rule_def ex_entry_def
  ex_reader_entry_def ex_book_def ex_empty_book_def ex_engine_def ex_dup_rule_def_def
  ex_dup_rule_def ex_dup_whitelist_rule_def ex_dup_entry_def

lemma upper_owner: "ascii_upper ''owner'' = ''OWNER''"
  by code_simp

lemma upper_reader: "ascii_upper ''READER'' = ''READER''"
  by code_simp

lemma upper_star: "ascii_upper ''*'' = ''*''"
  by code_simp

lemma ex_build_rule: "build_rule ascii_upper ex_rule_def 0 ex_scope = Inr ex_rule"
  by (simp add: build_rule_def ex_defs truthy_def Mode_of_value_def get_default_def upper_owner)

lemma ex_build_org_rule: "build_rule ascii_upper ex_org_rule_def 1 ex_org_scope = Inr ex_org_rule"
  by (simp add: build_rule_def ex_defs truthy_def Mode_of_value_def get_default_def upper_star)

lemma ex_build_reader_rule: "build_rule ascii_upper ex_reader_rule_def 0 ex_scope = Inr ex_reader_rule"
  by (simp add: build_rule_def ex_defs truthy_def Mode_of_value_def get_default_def upper_reader)

lemma ex_applicable: "is_applicable ex_rule ex_entry"
  by (simp add: is_applicable_def ex_defs dict_literal_def all_match_def escape_and_globify_def)

lemma ex_has_violation: "has_violation ex_rule ex_entry"
  by (simp add: has_violation_def all_matched_def rule_regex_to_val_def ex_defs dict_literal_def
      all_match_def escape_and_globify_def)

lemma ex_init: "BigqueryRuleBook_init ascii_upper ex_create_resource (Some (Some [ex_rule_def, ex_org_rule_def])) = (None, ex_book)"
  using ex_build_rule ex_build_org_rule
  by (simp add: BigqueryRuleBook_init_def add_rules_def get_default_def enumerate_eq_zip add_rule_def
       ex_book_def ex_rule_def_def ex_org_rule_def_def ex_scope_def ex_org_scope_def ex_create_resource_def
       dd_append_def dd_getitem_def upt_rec)

lemma ex_ancestors:
  "ex_find_ancestors (Some ''project'', ''proj-1'') =
     [] @ (Some ''project'', ''proj-1'') # [] @ (Some ''organization'', ''org-1'') # []"
  by (simp add: ex_find_ancestors_def)

section \<open>Properties\<close>

text \<open>
  For a rule that is applicable to an entry, the mode decides on the result of
  \<open>all_match\<close> on the dictionary that the rule builds from the four pairs, which is keyed
  by the compiled pattern: \<open>BLACKLIST\<close> yields a violation iff that result is true,
  \<open>WHITELIST\<close> iff it is false, and two rules with the same six patterns and opposite
  modes give opposite results.
\<close>

lemma mode_decides_on_dictionary:
  assumes "is_applicable r e"
  shows "(mode (rules r) = BLACKLIST \<longrightarrow>
           (Rule_find_policy_violations r e \<noteq> [] \<longleftrightarrow> all_matched r e))
       \<and> (mode (rules r) = WHITELIST \<longrightarrow>
           (Rule_find_policy_violations r e \<noteq> [] \<longleftrightarrow> \<not> all_matched r e))
       \<and> (\<forall>r'. dataset_id (bigquery_acl (rules r')) = dataset_id (bigquery_acl (rules r))
               \<and> role (bigquery_acl (rules r')) = role (bigquery_acl (rules r))
               \<and> special_group (bigquery_acl (rules r')) = special_group (bigquery_acl (rules r))
               \<and> user_email (bigquery_acl (rules r')) = user_email (bigquery_acl (rules r))
               \<and> domain (bigquery_acl (rules r')) = domain (bigquery_acl (rules r))
               \<and> group_email (bigquery_acl (rules r')) = group_email (bigquery_acl (rules r))
               \<and> mode (rules r') \<noteq> mode (rules r)
             \<longrightarrow> (Rule_find_policy_violations r e \<noteq> [] \<longleftrightarrow> Rule_find_policy_violations r' e = []))"
proof -
  have a: "Rule_find_policy_violations r e \<noteq> [] \<longleftrightarrow> has_violation r e"
    using assms by (simp add: Rule_find_policy_violations_def)
  have b: "Rule_find_policy_violations r' e \<noteq> [] \<longleftrightarrow> has_violation r' e"
    if "dataset_id (bigquery_acl (rules r')) = dataset_id (bigquery_acl (rules r))"
       "role (bigquery_acl (rules r')) = role (bigquery_acl (rules r))" for r'
    using assms that by (simp add: Rule_find_policy_violations_def is_applicable_def Let_def)
  have c: "has_violation r e \<longleftrightarrow> \<not> has_violation r' e"
    if "special_group (bigquery_acl (rules r')) = special_group (bigquery_acl (rules r))"
       "user_email (bigquery_acl (rules r')) = user_email (bigquery_acl (rules r))"
       "domain (bigquery_acl (rules r')) = domain (bigquery_acl (rules r))"
       "group_email (bigquery_acl (rules r')) = group_email (bigquery_acl (rules r))"
       "mode (rules r') \<noteq> mode (rules r)" for r'
  proof -
    have "all_matched r' e = all_matched r e"
      using that by (simp add: all_matched_def rule_regex_to_val_def Let_def)
    then show ?thesis
      using that(5) by (cases "mode (rules r)"; cases "mode (rules r')") (auto simp: has_violation_def)
  qed
  have p1: "mode (rules r) = BLACKLIST \<longrightarrow>
      (Rule_find_policy_violations r e \<noteq> [] \<longleftrightarrow> all_matched r e)"
    using a by (simp add: has_violation_def)
  have p2: "mode (rules r) = WHITELIST \<longrightarrow>
      (Rule_find_policy_violations r e \<noteq> [] \<longleftrightarrow> \<not> all_matched r e)"
    using a by (simp add: has_violation_def)
  have p3: "Rule_find_policy_violations r e \<noteq> [] \<longleftrightarrow> Rule_find_policy_violations r' e = []"
    if "dataset_id (bigquery_acl (rules r')) = dataset_id (bigquery_acl (rules r))"
       "role (bigquery_acl (rules r')) = role (bigquery_acl (rules r))"
       "special_group (bigquery_acl (rules r')) = special_group (bigquery_acl (rules r))"
       "user_email (bigquery_acl (rules r')) = user_email (bigquery_acl (rules r))"
       "domain (bigquery_acl (rules r')) = domain (bigquery_acl (rules r))"
       "group_email (bigquery_acl (rules r')) = group_email (bigquery_acl (rules r))"
       "mode (rules r') \<noteq> mode (rules r)" for r'
    using a b [OF that(1,2)] c [OF that(3-7)] by blast
  show ?thesis
    using p1 p2 p3 by blast
qed

text \<open>
  C1. A \<open>BLACKLIST\<close> rule is meant to yield a violation iff each of the four pairs
  (special_group, user_email, domain and group_email pattern, each with the entry's
  value) matches, and a \<open>WHITELIST\<close> rule iff one of them does not. A rule definition with
  \<open>user_email: example.com\<close> and \<open>domain: example.com\<close> compiles both to the same
  pattern, and the dictionary of the four pairs keeps one pair for the two, the one of
  the domain. For an entry with user_email \<open>alice@other.org\<close> and domain \<open>example.com\<close>
  the user_email pair does not match, yet the \<open>BLACKLIST\<close> rule yields a violation and
  the \<open>WHITELIST\<close> rule with the same patterns yields none.
\<close>

theorem C1_equal_patterns_drop_user_email_check:
  "build_rule ascii_upper ex_dup_rule_def 0 ex_scope = Inr ex_dup_rule
   \<and> is_applicable ex_dup_rule ex_dup_entry
   \<and> is_applicable ex_dup_whitelist_rule ex_dup_entry
   \<and> mode (rules ex_dup_rule) = BLACKLIST
   \<and> mode (rules ex_dup_whitelist_rule) = WHITELIST
   \<and> re_match (special_group (bigquery_acl (rules ex_dup_rule))) (special_group ex_dup_entry)
   \<and> \<not> re_match (user_email (bigquery_acl (rules ex_dup_rule))) (user_email ex_dup_entry)
   \<and> re_match (domain (bigquery_acl (rules ex_dup_rule))) (domain ex_dup_entry)
   \<and> re_match (group_email (bigquery_acl (rules ex_dup_rule))) (group_email ex_dup_entry)
   \<and> rule_regex_to_val ex_dup_rule ex_dup_entry =
       [(escape_and_globify ''*'', group_email ex_dup_entry),
        (escape_and_globify ''example.com'', domain ex_dup_entry)]
   \<and> Rule_find_policy_violations ex_dup_rule ex_dup_entry \<noteq> []
   \<and> Rule_find_policy_violations ex_dup_whitelist_rule ex_dup_entry = []"
proof -
  have "build_rule ascii_upper ex_dup_rule_def 0 ex_scope = Inr ex_dup_rule"
    by (simp add: build_rule_def ex_defs truthy_def Mode_of_value_def get_default_def upper_star)
  then show ?thesis
    by (simp add: is_applicable_def Rule_find_policy_violations_def has_violation_def
        all_matched_def rule_regex_to_val_def ex_defs dict_literal_def all_match_def
        escape_and_globify_def)
qed

text \<open>
  C2. The applicability check is meant to hold iff the entry's dataset_id matches the
  rule's dataset_id pattern and its role matches the rule's role pattern. A rule
  definition with \<open>dataset_id: READER\<close> and \<open>role: READER\<close> compiles both to the same
  pattern, the dictionary of the check keeps one pair for the two, and the rule is
  applicable to an entry of dataset \<open>ds1\<close> with role \<open>READER\<close> and yields a violation
  for it, although \<open>ds1\<close> does not match the dataset_id pattern.
\<close>

theorem C2_equal_patterns_drop_dataset_check:
  "build_rule ascii_upper ex_reader_rule_def 0 ex_scope = Inr ex_reader_rule
   \<and> \<not> re_match (dataset_id (bigquery_acl (rules ex_reader_rule))) (dataset_id ex_reader_entry)
   \<and> re_match (role (bigquery_acl (rules ex_reader_rule))) (role ex_reader_entry)
   \<and> is_applicable ex_reader_rule ex_reader_entry
   \<and> Rule_find_policy_violations ex_reader_rule ex_reader_entry \<noteq> []"
  using ex_build_reader_rule
  by (simp add: is_applicable_def Rule_find_policy_violations_def has_violation_def all_matched_def
      rule_regex_to_val_def ex_defs dict_literal_def all_match_def escape_and_globify_def)

text \<open>
  C3. The violations of a query are the concatenation, in the order in which the
  hierarchy resolver lists the ancestors, of what each ancestor contributes, and an
  ancestor contributes the violations of its rules in rule-list order. So whenever one
  ancestor is listed before another, all violations of the first come before all
  violations of the second.
\<close>

theorem C3_ancestor_order:
  "fst (BigqueryRuleBook_find_policy_violations find_ancestors self resource bq_acl) =
     concat (map (ancestor_violations self bq_acl) (find_ancestors resource))
   \<and> (\<forall>pre closer mid farther post.
        find_ancestors resource = pre @ closer # mid @ farther # post \<longrightarrow>
        (\<exists>before between after.
           fst (BigqueryRuleBook_find_policy_violations find_ancestors self resource bq_acl) =
             before @ ancestor_violations self bq_acl closer @ between
               @ ancestor_violations self bq_acl farther @ after))"
proof -
  let ?out = "fst (BigqueryRuleBook_find_policy_violations find_ancestors self resource bq_acl)"
  let ?av = "ancestor_violations self bq_acl"
  have eq: "?out = concat (map ?av (find_ancestors resource))"
    by (simp add: book_find_eq)
  have ord: "\<exists>before between after.
      ?out = before @ ?av closer @ between @ ?av farther @ after"
    if "find_ancestors resource = pre @ closer # mid @ farther # post"
    for pre closer mid farther post
  proof -
    from eq that
    have "?out = concat (map ?av pre) @ ?av closer @ concat (map ?av mid) @ ?av farther
                   @ concat (map ?av post)"
      by simp
    then show ?thesis by blast
  qed
  from eq ord show ?thesis by blast
qed

theorem C3_ancestor_order_witness:
  "ex_find_ancestors (Some ''project'', ''proj-1'') =
     [] @ (Some ''project'', ''proj-1'') # [] @ (Some ''organization'', ''org-1'') # []
   \<and> (\<exists>before between after.
        fst (BigqueryRuleBook_find_policy_violations ex_find_ancestors ex_book
               (Some ''project'', ''proj-1'') ex_entry) =
        before @ ancestor_violations ex_book ex_entry (Some ''project'', ''proj-1'') @ between
          @ ancestor_violations ex_book ex_entry (Some ''organization'', ''org-1'') @ after)
   \<and> map v_rule_index (ancestor_violations ex_book ex_entry (Some ''project'', ''proj-1'')) = [0]
   \<and> map v_rule_index (ancestor_violations ex_book ex_entry (Some ''organization'', ''org-1'')) = [1]
   \<and> map v_rule_index (fst (BigqueryRuleBook_find_policy_violations ex_find_ancestors ex_book
               (Some ''project'', ''proj-1'') ex_entry)) = [0, 1]"
proof -
  note t = C3_ancestor_order [of ex_find_ancestors ex_book "(Some ''project'', ''proj-1'')" ex_entry]
  from t ex_ancestors
  have a: "\<exists>before between after.
        fst (BigqueryRuleBook_find_policy_violations ex_find_ancestors ex_book
               (Some ''project'', ''proj-1'') ex_entry) =
        before @ ancestor_violations ex_book ex_entry (Some ''project'', ''proj-1'') @ between
          @ ancestor_violations ex_book ex_entry (Some ''organization'', ''org-1'') @ after"
    by blast
  have p: "map v_rule_index (ancestor_violations ex_book ex_entry (Some ''project'', ''proj-1'')) = [0]"
    by (simp add: ancestor_violations_def ex_defs Rule_find_policy_violations_def is_applicable_def
      has_violation_def all_matched_def rule_regex_to_val_def dict_literal_def all_match_def
      escape_and_globify_def)
  have q: "map v_rule_index (ancestor_violations ex_book ex_entry (Some ''organization'', ''org-1'')) = [1]"
    by (simp add: ancestor_violations_def ex_defs Rule_find_policy_violations_def is_applicable_def
      has_violation_def all_matched_def rule_regex_to_val_def dict_literal_def all_match_def
      escape_and_globify_def)
  from t have "fst (BigqueryRuleBook_find_policy_violations ex_find_ancestors ex_book
               (Some ''project'', ''proj-1'') ex_entry) =
     concat (map (ancestor_violations ex_book ex_entry) (ex_find_ancestors (Some ''project'', ''proj-1'')))"
    by blast
  with p q have r: "map v_rule_index (fst (BigqueryRuleBook_find_policy_violations ex_find_ancestors ex_book
               (Some ''project'', ''proj-1'') ex_entry)) = [0, 1]"
    by (simp add: ex_find_ancestors_def)
  from ex_ancestors a p q r show ?thesis by blast
qed

text \<open>
  C4, as the code has it. When a rule definition has a resource-scope entry whose
  identifier list is empty or missing, \<open>add_rule\<close> raises an error and leaves the stored
  rule definitions as they were. When the rule can be built, the error is
  \<open>InvalidRulesSchemaError\<close>, and the index then holds under every identity its former
  rule list followed by what the scope entries before the first such entry add to it,
  in their order; nothing is added for that entry or for an entry after it. When the
  rule cannot be built (an unrecognised mode) and a valid scope entry comes first, the
  build error is raised at that entry with the book as it was. The book is exactly as
  it was iff the entry is the first one or the rule cannot be built. A build of the
  engine from definitions that contain such a rule definition raises and leaves the
  engine, with the book it had, as it was.
\<close>

theorem C4_error_keeps_earlier_scopes:
  assumes "rd_resource rule_def = Some (good @ bad # rest)"
    and "\<forall>rr \<in> set good. rr_resource_ids rr \<notin> {None, Some []}"
    and "rr_resource_ids bad \<in> {None, Some []}"
  shows "(\<exists>e. fst (add_rule str_upper cr rule_def i self) = Some e)
       \<and> rule_defs (snd (add_rule str_upper cr rule_def i self)) = rule_defs self
       \<and> ((\<exists>r. build_rule str_upper rule_def i bad = Inr r) \<longrightarrow>
            fst (add_rule str_upper cr rule_def i self) = Some (InvalidRulesSchemaError i)
            \<and> (\<forall>k. rules_of (resource_rules_map (snd (add_rule str_upper cr rule_def i self))) k =
                  rules_of (resource_rules_map self) k
                    @ concat (map (scope_rules str_upper cr rule_def i k) good)))
       \<and> (\<forall>e. build_rule str_upper rule_def i bad = Inl e \<and> good \<noteq> [] \<longrightarrow>
            add_rule str_upper cr rule_def i self = (Some e, self))
       \<and> (good = [] \<longrightarrow> add_rule str_upper cr rule_def i self = (Some (InvalidRulesSchemaError i), self))
       \<and> (snd (add_rule str_upper cr rule_def i self) = self \<longleftrightarrow>
            good = [] \<or> (\<exists>e. build_rule str_upper rule_def i bad = Inl e))
       \<and> snd (add_rule str_upper cr rule_def i self) =
           snd (add_rule str_upper cr (rule_def\<lparr>rd_resource := Some good\<rparr>) i self)
       \<and> (\<forall>rds engine. rule_def \<in> set rds \<longrightarrow>
            (\<exists>e. build_rule_book str_upper cr (Some (Some rds)) engine = (Some e, engine)))"
proof -
  let ?run = "add_rule str_upper cr rule_def i self"
  have bad: "bad \<in> set (good @ bad # rest)" by simp
  have run: "?run = add_rule_resources str_upper cr rule_def i (good @ bad # rest) self"
    using assms(1) by (simp add: add_rule_def)
  have pre: "snd ?run = snd (add_rule_resources str_upper cr rule_def i good self)"
    unfolding run by (rule add_rule_resources_prefix [OF assms(2,3)])
  have 1: "\<exists>e. fst ?run = Some e"
    unfolding run by (rule add_rule_resources_raises [OF bad assms(3)])
  have 2: "rule_defs (snd ?run) = rule_defs self"
    unfolding run by (rule add_rule_resources_rule_defs)
  have 3: "fst ?run = Some (InvalidRulesSchemaError i)
      \<and> (\<forall>k. rules_of (resource_rules_map (snd ?run)) k =
            rules_of (resource_rules_map self) k
              @ concat (map (scope_rules str_upper cr rule_def i k) good))"
    if "build_rule str_upper rule_def i bad = Inr r" for r
  proof -
    have "fst ?run = Some (InvalidRulesSchemaError i)"
      unfolding run by (rule add_rule_resources_error_kind [OF assms(2,3) that])
    moreover have "\<forall>k. rules_of (resource_rules_map (snd ?run)) k =
            rules_of (resource_rules_map self) k
              @ concat (map (scope_rules str_upper cr rule_def i k) good)"
      using add_rule_resources_good [OF assms(2) that, of cr self] by (simp add: pre)
    ultimately show ?thesis ..
  qed
  have 4: "?run = (Some e, self)" if "build_rule str_upper rule_def i bad = Inl e" "good \<noteq> []" for e
  proof -
    from that(2) obtain rr rs where g: "good = rr # rs" by (cases good) auto
    with assms(2) have "rr_resource_ids rr \<notin> {None, Some []}" by simp
    from add_rule_resources_build_fails [OF this that(1)] g show ?thesis
      unfolding run by simp
  qed
  have 5: "good = [] \<longrightarrow> ?run = (Some (InvalidRulesSchemaError i), self)"
    using assms(3) unfolding run by auto
  have 6: "snd ?run = self \<longleftrightarrow> good = [] \<or> (\<exists>e. build_rule str_upper rule_def i bad = Inl e)"
  proof
    assume same: "snd ?run = self"
    show "good = [] \<or> (\<exists>e. build_rule str_upper rule_def i bad = Inl e)"
    proof (rule ccontr)
      assume "\<not> (good = [] \<or> (\<exists>e. build_rule str_upper rule_def i bad = Inl e))"
      then obtain r rr rs where r: "build_rule str_upper rule_def i bad = Inr r"
        and g: "good = rr # rs"
        by (cases "build_rule str_upper rule_def i bad"; cases good) auto
      from g assms(2) have "rr_resource_ids rr \<notin> {None, Some []}" by simp
      from scope_rules_nonempty [OF this r, of cr]
      obtain k where k: "scope_rules str_upper cr rule_def i k rr \<noteq> []" by blast
      from 3 [OF r, THEN conjunct2, THEN spec, of k]
      have "rules_of (resource_rules_map (snd ?run)) k =
          rules_of (resource_rules_map self) k
            @ concat (map (scope_rules str_upper cr rule_def i k) good)" .
      then have "rules_of (resource_rules_map self) k =
          rules_of (resource_rules_map self) k
            @ concat (map (scope_rules str_upper cr rule_def i k) good)"
        unfolding same .
      then have "concat (map (scope_rules str_upper cr rule_def i k) good) = []"
        by (simp only: self_append_conv)
      with g k show False by simp
    qed
  next
    assume h: "good = [] \<or> (\<exists>e. build_rule str_upper rule_def i bad = Inl e)"
    show "snd ?run = self"
    proof (cases "good = []")
      case True
      with 5 have "?run = (Some (InvalidRulesSchemaError i), self)" by blast
      then show ?thesis by simp
    next
      case False
      with h obtain e where "build_rule str_upper rule_def i bad = Inl e" by blast
      from 4 [OF this False] show ?thesis by simp
    qed
  qed
  have 7: "snd ?run = snd (add_rule str_upper cr (rule_def\<lparr>rd_resource := Some good\<rparr>) i self)"
    unfolding pre by (simp add: add_rule_def add_rule_resources_resource_irrelevant)
  have 8: "\<exists>e. build_rule_book str_upper cr (Some (Some rds)) engine = (Some e, engine)"
    if "rule_def \<in> set rds" for rds and engine :: "'a BigqueryRulesEngine"
  proof -
    from in_set_enumerate [OF that] obtain j where "(j, rule_def) \<in> set (enumerate 0 rds)" by blast
    from add_rules_loop_raises [OF this assms(1) bad assms(3)]
    obtain e where "fst (add_rules_loop str_upper cr (enumerate 0 rds)
        \<lparr>rule_defs = Some rds, resource_rules_map = []\<rparr>) = Some e" by blast
    then show ?thesis
      by (auto simp: build_rule_book_def BigqueryRuleBook_init_def add_rules_def get_default_def
          split: prod.splits option.splits)
  qed
  have c3: "(\<exists>r. build_rule str_upper rule_def i bad = Inr r) \<longrightarrow>
      fst ?run = Some (InvalidRulesSchemaError i)
      \<and> (\<forall>k. rules_of (resource_rules_map (snd ?run)) k =
            rules_of (resource_rules_map self) k
              @ concat (map (scope_rules str_upper cr rule_def i k) good))"
    using 3 by blast
  have c4: "\<forall>e. build_rule str_upper rule_def i bad = Inl e \<and> good \<noteq> [] \<longrightarrow> ?run = (Some e, self)"
    using 4 by blast
  have c8: "\<forall>rds engine. rule_def \<in> set rds \<longrightarrow>
      (\<exists>e. build_rule_book str_upper cr (Some (Some rds)) (engine :: 'a BigqueryRulesEngine) =
         (Some e, engine))"
    using 8 by blast
  show ?thesis
    by (intro conjI) (rule 1 2 c3 c4 5 6 7 c8)+
qed

theorem C4_error_keeps_earlier_scopes_witness:
  "rd_resource ex_two_scope_def = Some ([ex_scope] @ ex_empty_scope # [])
   \<and> rr_resource_ids ex_scope = Some [''proj-1'']
   \<and> rr_resource_ids ex_empty_scope = Some []
   \<and> build_rule ascii_upper ex_two_scope_def 0 ex_empty_scope =
       Inr (ex_rule\<lparr>rules := (rules ex_rule)\<lparr>bigquery_acl :=
              (bigquery_acl (rules ex_rule))\<lparr>json := ex_empty_scope\<rparr>\<rparr>\<rparr>)
   \<and> fst (add_rule ascii_upper ex_create_resource ex_two_scope_def 0 ex_empty_book) =
       Some (InvalidRulesSchemaError 0)
   \<and> rules_of (resource_rules_map
         (snd (add_rule ascii_upper ex_create_resource ex_two_scope_def 0 ex_empty_book)))
       (Some ''project'', ''proj-1'') = [ex_rule]
   \<and> snd (add_rule ascii_upper ex_create_resource ex_two_scope_def 0 ex_empty_book) \<noteq> ex_empty_book
   \<and> add_rule ascii_upper ex_create_resource
        (ex_two_scope_def\<lparr>rd_mode := Some ''greylist''\<rparr>) 0 ex_empty_book =
       (Some (ValueError ''greylist''), ex_empty_book)
   \<and> (\<exists>e. build_rule_book ascii_upper ex_create_resource
          (Some (Some [ex_rule_def, ex_two_scope_def])) ex_engine = (Some e, ex_engine))"
proof -
  have a: "rd_resource ex_two_scope_def = Some ([ex_scope] @ ex_empty_scope # [])"
    by (simp add: ex_two_scope_def_def)
  have b: "\<forall>rr \<in> set [ex_scope]. rr_resource_ids rr \<notin> {None, Some []}"
    by (simp add: ex_scope_def)
  have c: "rr_resource_ids ex_empty_scope \<in> {None, Some []}"
    by (simp add: ex_empty_scope_def)
  have b': "rr_resource_ids ex_scope = Some [''proj-1'']"
    by (simp add: ex_scope_def)
  have c': "rr_resource_ids ex_empty_scope = Some []"
    by (simp add: ex_empty_scope_def)
  have d: "build_rule ascii_upper ex_two_scope_def 0 ex_empty_scope =
       Inr (ex_rule\<lparr>rules := (rules ex_rule)\<lparr>bigquery_acl :=
              (bigquery_acl (rules ex_rule))\<lparr>json := ex_empty_scope\<rparr>\<rparr>\<rparr>)"
    by (simp add: build_rule_def ex_defs truthy_def Mode_of_value_def get_default_def upper_owner)
  have d0: "build_rule ascii_upper ex_two_scope_def 0 ex_scope = Inr ex_rule"
    using ex_build_rule by (simp add: ex_two_scope_def_def build_rule_resource_irrelevant)
  note t = C4_error_keeps_earlier_scopes [OF a b c,
      where str_upper = ascii_upper and cr = ex_create_resource and i = 0 and self = ex_empty_book]
  note t3 = t [THEN conjunct2, THEN conjunct2, THEN conjunct1, rule_format, OF exI, OF d]
  from t3 have e: "fst (add_rule ascii_upper ex_create_resource ex_two_scope_def 0 ex_empty_book) =
       Some (InvalidRulesSchemaError 0)" by (rule conjunct1)
  from t3 have "rules_of (resource_rules_map
         (snd (add_rule ascii_upper ex_create_resource ex_two_scope_def 0 ex_empty_book)))
       (Some ''project'', ''proj-1'') =
      rules_of (resource_rules_map ex_empty_book) (Some ''project'', ''proj-1'')
        @ concat (map (scope_rules ascii_upper ex_create_resource ex_two_scope_def 0
            (Some ''project'', ''proj-1'')) [ex_scope])"
    by (rule conjunct2 [THEN spec])
  with d0 have f: "rules_of (resource_rules_map
         (snd (add_rule ascii_upper ex_create_resource ex_two_scope_def 0 ex_empty_book)))
       (Some ''project'', ''proj-1'') = [ex_rule]"
    by (simp add: scope_rules_def rules_of_def ex_empty_book_def ex_scope_def
        ex_create_resource_def get_default_def)
  have g: "snd (add_rule ascii_upper ex_create_resource ex_two_scope_def 0 ex_empty_book)
      \<noteq> ex_empty_book"
  proof
    assume "snd (add_rule ascii_upper ex_create_resource ex_two_scope_def 0 ex_empty_book) = ex_empty_book"
    with f show False by (simp add: rules_of_def ex_empty_book_def)
  qed
  have a2: "rd_resource (ex_two_scope_def\<lparr>rd_mode := Some ''greylist''\<rparr>) =
      Some ([ex_scope] @ ex_empty_scope # [])"
    by (simp add: ex_two_scope_def_def)
  have d2: "build_rule ascii_upper (ex_two_scope_def\<lparr>rd_mode := Some ''greylist''\<rparr>) 0 ex_empty_scope =
      Inl (ValueError ''greylist'')"
    by (simp add: build_rule_def truthy_def Mode_of_value_def get_default_def)
  have ne: "[ex_scope] \<noteq> []" by simp
  from C4_error_keeps_earlier_scopes [OF a2 b c,
      where str_upper = ascii_upper and cr = ex_create_resource and i = 0 and self = ex_empty_book,
      THEN conjunct2, THEN conjunct2, THEN conjunct2, THEN conjunct1, rule_format, OF conjI, OF d2 ne]
  have h: "add_rule ascii_upper ex_create_resource
        (ex_two_scope_def\<lparr>rd_mode := Some ''greylist''\<rparr>) 0 ex_empty_book =
       (Some (ValueError ''greylist''), ex_empty_book)" .
  from t have "\<forall>rds engine. ex_two_scope_def \<in> set rds \<longrightarrow>
      (\<exists>e. build_rule_book ascii_upper ex_create_resource (Some (Some rds))
          (engine :: ex_res BigqueryRulesEngine) = (Some e, engine))"
    by blast
  from this [rule_format, of "[ex_rule_def, ex_two_scope_def]" ex_engine]
  have k: "\<exists>e. build_rule_book ascii_upper ex_create_resource
          (Some (Some [ex_rule_def, ex_two_scope_def])) ex_engine = (Some e, ex_engine)"
    by simp
  show ?thesis
    by (intro conjI) (rule a b' c' d e f g h k)+
qed

text \<open>
  C4, as stated, asks for the index to be exactly as it was before \<open>add_rule\<close> was called.
  For a definition whose first scope entry lists \<open>proj-1\<close> and whose second scope entry
  has an empty list, \<open>add_rule\<close> raises at the second entry and the rule is by then
  registered under \<open>proj-1\<close>.
\<close>

theorem C4_atomicity_counterexample:
  "rd_resource ex_two_scope_def = Some [ex_scope, ex_empty_scope]
   \<and> rr_resource_ids ex_empty_scope = Some []
   \<and> add_rule ascii_upper ex_create_resource ex_two_scope_def 0 ex_empty_book =
       (Some (InvalidRulesSchemaError 0),
        ex_empty_book\<lparr>resource_rules_map := [((Some ''project'', ''proj-1''), [ex_rule])]\<rparr>)
   \<and> snd (add_rule ascii_upper ex_create_resource ex_two_scope_def 0 ex_empty_book) \<noteq> ex_empty_book"
proof -
  have "build_rule ascii_upper ex_two_scope_def 0 ex_scope = Inr ex_rule"
    using ex_build_rule by (simp add: ex_two_scope_def_def build_rule_resource_irrelevant)
  then show ?thesis
    by (simp add: add_rule_def ex_two_scope_def_def ex_scope_def ex_empty_scope_def ex_empty_book_def
        ex_create_resource_def dd_append_def dd_getitem_def)
qed

text \<open>
  C5. A compiled pattern matches a value iff the value splits into one piece per
  character of the pattern string, an arbitrary (possibly empty) piece for each \<open>*\<close> and
  the character itself for every other character. So the pattern \<open>*\<close> matches every
  string, and a pattern without \<open>*\<close> matches exactly the string that it is.
\<close>

theorem C5_wildcard_full_match:
  "(re_match (escape_and_globify p) s \<longleftrightarrow>
      (\<exists>segs. list_all2 (\<lambda>c seg. c = CHR ''*'' \<or> seg = [c]) p segs \<and> concat segs = s))
   \<and> re_match (escape_and_globify ''*'') s
   \<and> (CHR ''*'' \<notin> set p \<longrightarrow> (re_match (escape_and_globify p) s \<longleftrightarrow> s = p))"
proof -
  have seg: "seg_of (if c = CHR ''*'' then AnyChars else Literal c) seg \<longleftrightarrow> (c = CHR ''*'' \<or> seg = [c])"
    for c seg by (simp add: seg_of_def)
  have "re_match (escape_and_globify p) s \<longleftrightarrow>
      (\<exists>segs. list_all2 (\<lambda>c seg. c = CHR ''*'' \<or> seg = [c]) p segs \<and> concat segs = s)"
    unfolding re_match_segments escape_and_globify_def list_all2_map1 seg ..
  moreover have "re_match (escape_and_globify ''*'') s"
    by (simp add: escape_and_globify_def re_match_star)
  moreover have "CHR ''*'' \<notin> set p \<longrightarrow> (re_match (escape_and_globify p) s \<longleftrightarrow> s = p)"
    by (simp add: escape_no_star re_match_literals)
  ultimately show ?thesis by blast
qed

theorem C5_wildcard_full_match_witness:
  "CHR ''*'' \<notin> set ''a.c''
   \<and> re_match (escape_and_globify ''a.c'') ''a.c''
   \<and> \<not> re_match (escape_and_globify ''a.c'') ''abc''
   \<and> re_match (escape_and_globify ''*'') ''''
   \<and> re_match (escape_and_globify ''*'') ''.*+?^$()[]{}|''"
proof -
  have ns: "CHR ''*'' \<notin> set ''a.c''" by simp
  have "re_match (escape_and_globify ''a.c'') ''a.c''"
    using C5_wildcard_full_match [of "''a.c''" "''a.c''"] ns by blast
  moreover have "\<not> re_match (escape_and_globify ''a.c'') ''abc''"
    using C5_wildcard_full_match [of "''a.c''" "''abc''"] ns by blast
  moreover have "re_match (escape_and_globify ''*'') ''''"
    using C5_wildcard_full_match [of "''a.c''" "''''"] by blast
  moreover have "re_match (escape_and_globify ''*'') ''.*+?^$()[]{}|''"
    using C5_wildcard_full_match [of "''a.c''" "''.*+?^$()[]{}|''"] by blast
  ultimately show ?thesis using ns by blast
qed

text \<open>
  C6. When a rule is applicable to an entry and decides that it is a violation, the
  rule yields exactly one record: its type tag is \<open>BIGQUERY_VIOLATION\<close>, the rule name and
  rule index are the rule's, the resource id is the entry's dataset_id, and the other
  fields are copied from the entry.
\<close>

theorem C6_one_violation_record:
  assumes "is_applicable r e" and "has_violation r e"
  shows "Rule_find_policy_violations r e =
     [\<lparr>v_resource_type = BIGQUERY,
       v_resource_id = dataset_id e,
       v_full_name = full_name e,
       v_rule_name = rule_name r,
       v_rule_index = rule_index r,
       v_violation_type = ''BIGQUERY_VIOLATION'',
       v_dataset_id = dataset_id e,
       v_role = role e,
       v_special_group = special_group e,
       v_user_email = user_email e,
       v_domain = domain e,
       v_group_email = group_email e,
       v_view = view e,
       v_resource_data = json e\<rparr>]"
  using assms by (simp add: Rule_find_policy_violations_def)

theorem C6_one_violation_record_witness:
  "is_applicable ex_rule ex_entry \<and> has_violation ex_rule ex_entry
   \<and> Rule_find_policy_violations ex_rule ex_entry =
       [\<lparr>v_resource_type = BIGQUERY, v_resource_id = ''ds1'',
         v_full_name = ''project/proj-1/dataset/ds1/'',
         v_rule_name = Some ''no external owners'', v_rule_index = 0,
         v_violation_type = ''BIGQUERY_VIOLATION'', v_dataset_id = ''ds1'', v_role = ''OWNER'',
         v_special_group = [], v_user_email = [], v_domain = ''external.com'',
         v_group_email = [], v_view = [], v_resource_data = ''{}''\<rparr>]"
  using C6_one_violation_record [OF ex_applicable ex_has_violation] ex_applicable ex_has_violation
  by (simp add: ex_rule_def ex_entry_def)

text \<open>
  C7, as the code has it. In a built rule the role pattern is compiled from the
  upper-cased role string and the other five patterns from their strings as they are.
  An entry's role matches iff it splits into one piece per character of the upper-cased
  role string, an arbitrary piece of any case for each \<open>*\<close> and the character itself for
  every other character. So when the upper-cased role string has no \<open>*\<close>, the entry's role
  matches iff it is that string: the role string \<open>owner\<close>, upper-cased to \<open>OWNER\<close>,
  matches the entry role \<open>OWNER\<close> and not \<open>owner\<close>. A rule definition without a role,
  whose default \<open>*\<close> is unchanged by upper-casing, matches every entry role.
\<close>

theorem C7_role_pattern_upper_cased:
  assumes "build_rule str_upper rule_def i raw_resource = Inr rule"
  shows "role (bigquery_acl (rules rule)) =
           escape_and_globify (str_upper (get_default (rd_role rule_def) ''*''))
       \<and> dataset_id (bigquery_acl (rules rule)) =
           escape_and_globify (get_default (rd_dataset_id rule_def) ''*'')
       \<and> special_group (bigquery_acl (rules rule)) =
           escape_and_globify (get_default (rd_special_group rule_def) ''*'')
       \<and> user_email (bigquery_acl (rules rule)) =
           escape_and_globify (get_default (rd_user_email rule_def) ''*'')
       \<and> domain (bigquery_acl (rules rule)) =
           escape_and_globify (get_default (rd_domain rule_def) ''*'')
       \<and> group_email (bigquery_acl (rules rule)) =
           escape_and_globify (get_default (rd_group_email rule_def) ''*'')
       \<and> (\<forall>v. re_match (role (bigquery_acl (rules rule))) v \<longleftrightarrow>
             (\<exists>segs. list_all2 (\<lambda>c seg. c = CHR ''*'' \<or> seg = [c])
                       (str_upper (get_default (rd_role rule_def) ''*'')) segs
                     \<and> concat segs = v))
       \<and> (CHR ''*'' \<notin> set (str_upper (get_default (rd_role rule_def) ''*'')) \<longrightarrow>
             (\<forall>v. re_match (role (bigquery_acl (rules rule))) v \<longleftrightarrow>
                  v = str_upper (get_default (rd_role rule_def) ''*'')))
       \<and> (rd_role rule_def = Some ''owner'' \<and> str_upper ''owner'' = ''OWNER'' \<longrightarrow>
             re_match (role (bigquery_acl (rules rule))) ''OWNER''
             \<and> \<not> re_match (role (bigquery_acl (rules rule))) ''owner'')
       \<and> (rd_role rule_def = None \<and> str_upper ''*'' = ''*'' \<longrightarrow>
             (\<forall>v. re_match (role (bigquery_acl (rules rule))) v))"
proof -
  let ?role = "str_upper (get_default (rd_role rule_def) ''*'')"
  have fields:
    "role (bigquery_acl (rules rule)) = escape_and_globify ?role"
    "dataset_id (bigquery_acl (rules rule)) =
       escape_and_globify (get_default (rd_dataset_id rule_def) ''*'')"
    "special_group (bigquery_acl (rules rule)) =
       escape_and_globify (get_default (rd_special_group rule_def) ''*'')"
    "user_email (bigquery_acl (rules rule)) =
       escape_and_globify (get_default (rd_user_email rule_def) ''*'')"
    "domain (bigquery_acl (rules rule)) =
       escape_and_globify (get_default (rd_domain rule_def) ''*'')"
    "group_email (bigquery_acl (rules rule)) =
       escape_and_globify (get_default (rd_group_email rule_def) ''*'')"
    using assms by (auto simp: build_rule_def split: sum.splits)
  have pieces: "\<forall>v. re_match (role (bigquery_acl (rules rule))) v \<longleftrightarrow>
             (\<exists>segs. list_all2 (\<lambda>c seg. c = CHR ''*'' \<or> seg = [c]) ?role segs \<and> concat segs = v)"
    unfolding fields(1) by (simp add: re_match_escape_segments)
  have exact: "CHR ''*'' \<notin> set ?role \<longrightarrow>
             (\<forall>v. re_match (role (bigquery_acl (rules rule))) v \<longleftrightarrow> v = ?role)"
    unfolding fields(1) by (simp add: escape_no_star re_match_literals)
  have owner: "rd_role rule_def = Some ''owner'' \<and> str_upper ''owner'' = ''OWNER'' \<longrightarrow>
             re_match (role (bigquery_acl (rules rule))) ''OWNER''
             \<and> \<not> re_match (role (bigquery_acl (rules rule))) ''owner''"
    unfolding fields(1) by (simp add: get_default_def escape_and_globify_def)
  have dflt: "rd_role rule_def = None \<and> str_upper ''*'' = ''*'' \<longrightarrow>
             (\<forall>v. re_match (role (bigquery_acl (rules rule))) v)"
    unfolding fields(1) by (simp add: get_default_def escape_and_globify_def re_match_star)
  show ?thesis using fields pieces exact owner dflt by blast
qed

theorem C7_role_pattern_upper_cased_witness:
  "build_rule ascii_upper ex_rule_def 0 ex_scope = Inr ex_rule
   \<and> rd_role ex_rule_def = Some ''owner''
   \<and> ascii_upper ''owner'' = ''OWNER''
   \<and> CHR ''*'' \<notin> set (ascii_upper (get_default (rd_role ex_rule_def) ''*''))
   \<and> re_match (role (bigquery_acl (rules ex_rule))) ''OWNER''
   \<and> \<not> re_match (role (bigquery_acl (rules ex_rule))) ''owner''
   \<and> \<not> re_match (role (bigquery_acl (rules ex_rule))) ''Owner''"
proof -
  have r: "rd_role ex_rule_def = Some ''owner''" by (simp add: ex_rule_def_def)
  have n: "CHR ''*'' \<notin> set (ascii_upper (get_default (rd_role ex_rule_def) ''*''))"
    by (simp add: r get_default_def upper_owner)
  note t = C7_role_pattern_upper_cased [OF ex_build_rule]
  from t r upper_owner
  have a: "re_match (role (bigquery_acl (rules ex_rule))) ''OWNER''
      \<and> \<not> re_match (role (bigquery_acl (rules ex_rule))) ''owner''"
    by blast
  from t n have "re_match (role (bigquery_acl (rules ex_rule))) ''Owner'' \<longleftrightarrow>
      ''Owner'' = ascii_upper (get_default (rd_role ex_rule_def) ''*'')"
    by blast
  then have b: "\<not> re_match (role (bigquery_acl (rules ex_rule))) ''Owner''"
    by (simp add: r get_default_def upper_owner)
  from ex_build_rule r upper_owner n a b show ?thesis by blast
qed

text \<open>
  C7, as stated, lets an entry's role match only when it is in upper case. The rule
  definition of the example that names no role gets the default \<open>*\<close>, and its role
  pattern matches the lower-case entry role \<open>owner\<close>.
\<close>

theorem C7_wildcard_role_counterexample:
  "rd_role ex_org_rule_def = None
   \<and> build_rule ascii_upper ex_org_rule_def 1 ex_org_scope = Inr ex_org_rule
   \<and> re_match (role (bigquery_acl (rules ex_org_rule))) ''owner''
   \<and> ''owner'' \<noteq> ascii_upper ''owner''"
  using ex_build_org_rule upper_owner
  by (simp add: ex_org_rule_def_def ex_org_rule_def escape_and_globify_def)

text \<open>
  C8. With a book installed and \<open>force_rebuild\<close> false, the engine answers from the
  installed book and stays as it is, whatever the definitions on file are. With no book
  installed, or with \<open>force_rebuild\<close> true, the engine builds a book from the
  definitions on file: when the build succeeds that book replaces the installed one and
  answers the query, and when it raises the error is the result and the engine stays
  as it is.
\<close>

theorem C8_rebuild_iff_unbuilt_or_forced:
  "(\<forall>book. rule_book self = Some book \<and> \<not> force_rebuild \<longrightarrow>
      BigqueryRulesEngine_find_policy_violations str_upper cr fa loaded self parent_project bq_acl force_rebuild =
        (Inr (fst (BigqueryRuleBook_find_policy_violations fa book parent_project bq_acl)), self))
   \<and> (rule_book self = None \<or> force_rebuild \<longrightarrow>
        (\<forall>new_book. BigqueryRuleBook_init str_upper cr loaded = (None, new_book) \<longrightarrow>
           BigqueryRulesEngine_find_policy_violations str_upper cr fa loaded self parent_project bq_acl force_rebuild =
             (Inr (fst (BigqueryRuleBook_find_policy_violations fa new_book parent_project bq_acl)),
              self\<lparr>rule_book := Some new_book\<rparr>))
      \<and> (\<forall>e b. BigqueryRuleBook_init str_upper cr loaded = (Some e, b) \<longrightarrow>
           BigqueryRulesEngine_find_policy_violations str_upper cr fa loaded self parent_project bq_acl force_rebuild =
             (Inl e, self)))"
proof -
  have keep: "BigqueryRulesEngine_find_policy_violations str_upper cr fa loaded self parent_project bq_acl
        force_rebuild =
      (Inr (fst (BigqueryRuleBook_find_policy_violations fa book parent_project bq_acl)), self)"
    if "rule_book self = Some book" "\<not> force_rebuild" for book
    using that
    by (simp add: BigqueryRulesEngine_find_policy_violations_def book_find_eq)
  have built: "BigqueryRulesEngine_find_policy_violations str_upper cr fa loaded self parent_project bq_acl
        force_rebuild =
      (Inr (fst (BigqueryRuleBook_find_policy_violations fa new_book parent_project bq_acl)),
       self\<lparr>rule_book := Some new_book\<rparr>)"
    if "rule_book self = None \<or> force_rebuild"
       "BigqueryRuleBook_init str_upper cr loaded = (None, new_book)" for new_book
    using that
    by (auto simp: BigqueryRulesEngine_find_policy_violations_def build_rule_book_def book_find_eq)
  have raised: "BigqueryRulesEngine_find_policy_violations str_upper cr fa loaded self parent_project bq_acl
        force_rebuild = (Inl e, self)"
    if "rule_book self = None \<or> force_rebuild"
       "BigqueryRuleBook_init str_upper cr loaded = (Some e, b)" for e b
    using that
    by (auto simp: BigqueryRulesEngine_find_policy_violations_def build_rule_book_def)
  from keep built raised show ?thesis by blast
qed

theorem C8_rebuild_iff_unbuilt_or_forced_witness:
  "rule_book ex_engine = None
   \<and> BigqueryRuleBook_init ascii_upper ex_create_resource (Some (Some [ex_rule_def, ex_org_rule_def])) = (None, ex_book)
   \<and> BigqueryRulesEngine_find_policy_violations ascii_upper ex_create_resource ex_find_ancestors
        (Some (Some [ex_rule_def, ex_org_rule_def])) ex_engine (Some ''project'', ''proj-2'') ex_entry False =
        (Inr (fst (BigqueryRuleBook_find_policy_violations ex_find_ancestors ex_book
                (Some ''project'', ''proj-2'') ex_entry)), ex_engine\<lparr>rule_book := Some ex_book\<rparr>)
   \<and> rule_book (ex_engine\<lparr>rule_book := Some ex_empty_book\<rparr>) = Some ex_empty_book
   \<and> BigqueryRulesEngine_find_policy_violations ascii_upper ex_create_resource ex_find_ancestors
        (Some (Some [ex_rule_def, ex_org_rule_def])) (ex_engine\<lparr>rule_book := Some ex_empty_book\<rparr>)
        (Some ''project'', ''proj-1'') ex_entry False =
        (Inr (fst (BigqueryRuleBook_find_policy_violations ex_find_ancestors ex_empty_book
                (Some ''project'', ''proj-1'') ex_entry)), ex_engine\<lparr>rule_book := Some ex_empty_book\<rparr>)
   \<and> BigqueryRulesEngine_find_policy_violations ascii_upper ex_create_resource ex_find_ancestors
        (Some (Some [ex_rule_def, ex_org_rule_def])) (ex_engine\<lparr>rule_book := Some ex_empty_book\<rparr>)
        (Some ''project'', ''proj-1'') ex_entry True =
        (Inr (fst (BigqueryRuleBook_find_policy_violations ex_find_ancestors ex_book
                (Some ''project'', ''proj-1'') ex_entry)), ex_engine\<lparr>rule_book := Some ex_book\<rparr>)"
proof -
  have u: "rule_book ex_engine = None"
    by (simp add: ex_engine_def BigqueryRulesEngine_init_def)
  have b: "rule_book (ex_engine\<lparr>rule_book := Some ex_empty_book\<rparr>) = Some ex_empty_book"
    by simp
  from C8_rebuild_iff_unbuilt_or_forced [of ex_engine False ascii_upper ex_create_resource ex_find_ancestors
      "Some (Some [ex_rule_def, ex_org_rule_def])" "(Some ''project'', ''proj-2'')" ex_entry] u ex_init
  have 1: "BigqueryRulesEngine_find_policy_violations ascii_upper ex_create_resource ex_find_ancestors
        (Some (Some [ex_rule_def, ex_org_rule_def])) ex_engine (Some ''project'', ''proj-2'') ex_entry False =
        (Inr (fst (BigqueryRuleBook_find_policy_violations ex_find_ancestors ex_book
                (Some ''project'', ''proj-2'') ex_entry)), ex_engine\<lparr>rule_book := Some ex_book\<rparr>)"
    by blast
  from C8_rebuild_iff_unbuilt_or_forced [of "ex_engine\<lparr>rule_book := Some ex_empty_book\<rparr>" False
      ascii_upper ex_create_resource ex_find_ancestors
      "Some (Some [ex_rule_def, ex_org_rule_def])" "(Some ''project'', ''proj-1'')" ex_entry] b
  have 2: "BigqueryRulesEngine_find_policy_violations ascii_upper ex_create_resource ex_find_ancestors
        (Some (Some [ex_rule_def, ex_org_rule_def])) (ex_engine\<lparr>rule_book := Some ex_empty_book\<rparr>)
        (Some ''project'', ''proj-1'') ex_entry False =
        (Inr (fst (BigqueryRuleBook_find_policy_violations ex_find_ancestors ex_empty_book
                (Some ''project'', ''proj-1'') ex_entry)), ex_engine\<lparr>rule_book := Some ex_empty_book\<rparr>)"
    by blast
  from C8_rebuild_iff_unbuilt_or_forced [of "ex_engine\<lparr>rule_book := Some ex_empty_book\<rparr>" True
      ascii_upper ex_create_resource ex_find_ancestors
      "Some (Some [ex_rule_def, ex_org_rule_def])" "(Some ''project'', ''proj-1'')" ex_entry] ex_init
  have 3: "BigqueryRulesEngine_find_policy_violations ascii_upper ex_create_resource ex_find_ancestors
        (Some (Some [ex_rule_def, ex_org_rule_def])) (ex_engine\<lparr>rule_book := Some ex_empty_book\<rparr>)
        (Some ''project'', ''proj-1'') ex_entry True =
        (Inr (fst (BigqueryRuleBook_find_policy_violations ex_find_ancestors ex_book
                (Some ''project'', ''proj-1'') ex_entry)), ex_engine\<lparr>rule_book := Some ex_book\<rparr>)"
    by simp
  from u ex_init 1 b 2 3 show ?thesis by blast
qed

text \<open>
  C9. A query returns the rule book as it was. When no ancestor of the resource has
  rules registered, the query yields no violation; a read of the index with
  \<open>get(res, [])\<close> for an identity without rules returns the empty list and the index
  unchanged.
\<close>

theorem C9_query_leaves_index:
  "snd (BigqueryRuleBook_find_policy_violations find_ancestors self resource bq_acl) = self
   \<and> ((\<forall>res \<in> set (find_ancestors resource). map_of (resource_rules_map self) res = None) \<longrightarrow>
        BigqueryRuleBook_find_policy_violations find_ancestors self resource bq_acl = ([], self))
   \<and> (map_of (resource_rules_map self) res = None \<longrightarrow>
        dd_get res [] (resource_rules_map self) = ([], resource_rules_map self))"
proof -
  have frame: "snd (BigqueryRuleBook_find_policy_violations find_ancestors self resource bq_acl) = self"
    by (rule book_find_frame)
  have none: "BigqueryRuleBook_find_policy_violations find_ancestors self resource bq_acl = ([], self)"
    if "\<forall>res \<in> set (find_ancestors resource). map_of (resource_rules_map self) res = None"
  proof -
    from that have "\<forall>res \<in> set (find_ancestors resource). ancestor_violations self bq_acl res = []"
      by (simp add: ancestor_violations_def)
    then show ?thesis by (simp add: book_find_eq)
  qed
  have read: "dd_get res [] (resource_rules_map self) = ([], resource_rules_map self)"
    if "map_of (resource_rules_map self) res = None"
    using that by (simp add: dd_get_def)
  from frame none read show ?thesis by blast
qed

theorem C9_query_leaves_index_witness:
  "ex_find_ancestors (Some ''project'', ''proj-2'') = [(Some ''project'', ''proj-2'')]
   \<and> BigqueryRuleBook_find_policy_violations ex_find_ancestors ex_book
        (Some ''project'', ''proj-2'') ex_entry = ([], ex_book)
   \<and> map_of (resource_rules_map ex_book) (Some ''project'', ''proj-2'') = None
   \<and> dd_get (Some ''project'', ''proj-2'') [] (resource_rules_map ex_book) =
        ([], resource_rules_map ex_book)
   \<and> snd (BigqueryRuleBook_find_policy_violations ex_find_ancestors ex_book
        (Some ''project'', ''proj-1'') ex_entry) = ex_book"
proof -
  have h: "\<forall>res \<in> set (ex_find_ancestors (Some ''project'', ''proj-2'')).
       map_of (resource_rules_map ex_book) res = None"
    by (simp add: ex_find_ancestors_def ex_book_def)
  have k: "map_of (resource_rules_map ex_book) (Some ''project'', ''proj-2'') = None"
    by (simp add: ex_book_def)
  have a: "ex_find_ancestors (Some ''project'', ''proj-2'') = [(Some ''project'', ''proj-2'')]"
    by (simp add: ex_find_ancestors_def)
  from C9_query_leaves_index [of ex_find_ancestors ex_book "(Some ''project'', ''proj-2'')" ex_entry
      "(Some ''project'', ''proj-2'')"] h k
  have q: "BigqueryRuleBook_find_policy_violations ex_find_ancestors ex_book
        (Some ''project'', ''proj-2'') ex_entry = ([], ex_book)
      \<and> dd_get (Some ''project'', ''proj-2'') [] (resource_rules_map ex_book) =
        ([], resource_rules_map ex_book)"
    by blast
  from C9_query_leaves_index [of ex_find_ancestors ex_book "(Some ''project'', ''proj-1'')" ex_entry
      "(Some ''project'', ''proj-2'')"]
  have r: "snd (BigqueryRuleBook_find_policy_violations ex_find_ancestors ex_book
        (Some ''project'', ''proj-1'') ex_entry) = ex_book"
    by blast
  from a k q r show ?thesis by blast
qed

text \<open>
  C10. When the mode of a rule definition is missing or the empty string, the rule is
  built with mode \<open>BLACKLIST\<close>. Building a rule fails exactly when the mode is a
  non-empty string other than \<open>whitelist\<close> and \<open>blacklist\<close>, and the error is then the
  \<open>ValueError\<close> of the enum.
\<close>

theorem C10_falsy_mode_defaults:
  "((rd_mode rule_def = None \<or> rd_mode rule_def = Some []) \<longrightarrow>
      (\<exists>rule. build_rule str_upper rule_def i raw_resource = Inr rule \<and> mode (rules rule) = BLACKLIST))
   \<and> ((\<exists>e. build_rule str_upper rule_def i raw_resource = Inl e) \<longleftrightarrow>
      (\<exists>s. rd_mode rule_def = Some s \<and> s \<noteq> [] \<and> s \<noteq> ''whitelist'' \<and> s \<noteq> ''blacklist''))
   \<and> (\<forall>s. rd_mode rule_def = Some s \<and> s \<noteq> [] \<and> s \<noteq> ''whitelist'' \<and> s \<noteq> ''blacklist'' \<longrightarrow>
        build_rule str_upper rule_def i raw_resource = Inl (ValueError s))"
proof (cases "rd_mode rule_def")
  case None
  then show ?thesis
    by (simp add: build_rule_def truthy_def)
next
  case (Some s)
  show ?thesis
  proof (cases "s = []")
    case True
    with Some show ?thesis
      by (simp add: build_rule_def truthy_def)
  next
    case False
    with Some show ?thesis
      by (auto simp: build_rule_def truthy_def Mode_of_value_def get_default_def)
  qed
qed

theorem C10_falsy_mode_defaults_witness:
  "rd_mode ex_org_rule_def = None
   \<and> (\<exists>rule. build_rule ascii_upper ex_org_rule_def 1 ex_org_scope = Inr rule \<and> mode (rules rule) = BLACKLIST)
   \<and> build_rule ascii_upper (ex_rule_def\<lparr>rd_mode := Some ''greylist''\<rparr>) 0 ex_scope = Inl (ValueError ''greylist'')"
proof -
  have n: "rd_mode ex_org_rule_def = None" by (simp add: ex_org_rule_def_def)
  have g: "rd_mode (ex_rule_def\<lparr>rd_mode := Some ''greylist''\<rparr>) = Some ''greylist''
      \<and> ''greylist'' \<noteq> [] \<and> ''greylist'' \<noteq> ''whitelist'' \<and> ''greylist'' \<noteq> ''blacklist''" by simp
  from C10_falsy_mode_defaults [of ex_org_rule_def ascii_upper 1 ex_org_scope] n
  have a: "\<exists>rule. build_rule ascii_upper ex_org_rule_def 1 ex_org_scope = Inr rule \<and> mode (rules rule) = BLACKLIST"
    by blast
  from C10_falsy_mode_defaults [of "ex_rule_def\<lparr>rd_mode := Some ''greylist''\<rparr>" ascii_upper 0 ex_scope] g
  have b: "build_rule ascii_upper (ex_rule_def\<lparr>rd_mode := Some ''greylist''\<rparr>) 0 ex_scope = Inl (ValueError ''greylist'')"
    by blast
  from n a b show ?thesis by blast
qed

end
